theory Spec2Isabelle
  imports Complex_Main
begin

section \<open>Python transcendental equation solvers: the continuation engine\<close>

text \<open>
  The embedding follows \<^verbatim>\<open>src/main.py\<close>. Floating-point numbers are idealised as
  \<^typ>\<open>real\<close> and \<^typ>\<open>complex\<close>; the external root finders (\<^verbatim>\<open>sp.newton\<close>,
  \<^verbatim>\<open>sp.brentq\<close>, \<^verbatim>\<open>sp.brenth\<close>, \<^verbatim>\<open>mp.findroot\<close>) and the caller's equation are
  parameters of the model, so every theorem holds for whatever they compute. A Python
  exception is a value of type \<open>error\<close>, and a function that can raise returns
  \<open>error + 'a\<close> with \<open>Inl\<close> for the exception.
\<close>

datatype error = RuntimeError | ValueError | IndexError | TypeError | KeyError | ZeroDivisionError

subsection \<open>Numbers and the array \<^verbatim>\<open>points\<close>\<close>

text \<open>
  What a root finder hands back is a float (a Python float or \<^verbatim>\<open>np.float64\<close>), a NumPy
  complex scalar, or a Python complex. The three differ when the number is written into
  an array of floats.
\<close>

datatype number = NpFloat real | NpComplex complex | PyComplex complex

fun value_of :: "number \<Rightarrow> complex" where
  "value_of (NpFloat r) = of_real r"
| "value_of (NpComplex z) = z"
| "value_of (PyComplex z) = z"

fun is_complex :: "number \<Rightarrow> bool" where
  "is_complex (NpFloat r) = False"
| "is_complex (NpComplex z) = True"
| "is_complex (PyComplex z) = True"

text \<open>A NumPy scalar or a float: everything but a Python complex.\<close>

fun np_scalar :: "number \<Rightarrow> bool" where
  "np_scalar (PyComplex z) = False"
| "np_scalar v = True"

text \<open>
  A trace is the two-column array \<^verbatim>\<open>points\<close> with its dtype: column 0 is the sweep variable
  x, column 1 the root y. The x column only ever holds real values (it is filled from
  \<^verbatim>\<open>x_loc\<close>, which the driver moves by real steps), so \<^verbatim>\<open>np.real\<close> is the identity on it and
  \<^verbatim>\<open>np.abs\<close> the absolute value. \<^verbatim>\<open>np.zeros((1, 2))\<close> is an array of floats; in such an array
  every root has imaginary part 0.
\<close>

datatype dtype = Float64 | Complex128

type_synonym point = "real \<times> complex"

datatype ndarray = Array (dtype_of: dtype) (rows: "point list")

text \<open>\<^verbatim>\<open>np.vstack([points, [x_loc, root]])\<close>: the new array is complex as soon as the old one
  or the root is.\<close>

fun vstack :: "ndarray \<Rightarrow> real \<Rightarrow> number \<Rightarrow> ndarray" where
  "vstack (Array dt rs) x v =
     Array (if dt = Complex128 \<or> is_complex v then Complex128 else Float64)
       (rs @ [(x, value_of v)])"

text \<open>
  \<^verbatim>\<open>points[0,] = x_loc, root\<close> keeps the dtype of \<^verbatim>\<open>points\<close>. Into an array of floats a
  NumPy complex scalar is cast with a ComplexWarning, which keeps its real part, and a
  Python complex raises TypeError.
\<close>

fun set_row0 :: "ndarray \<Rightarrow> real \<Rightarrow> number \<Rightarrow> error + ndarray" where
  "set_row0 (Array Complex128 rs) x v = Inr (Array Complex128 (rs[0 := (x, value_of v)]))"
| "set_row0 (Array Float64 rs) x (NpFloat r) = Inr (Array Float64 (rs[0 := (x, of_real r)]))"
| "set_row0 (Array Float64 rs) x (NpComplex z) =
     Inr (Array Float64 (rs[0 := (x, of_real (Re z))]))"
| "set_row0 (Array Float64 rs) x (PyComplex z) = Inl TypeError"

text \<open>\<^verbatim>\<open>points[-k, 0]\<close> and \<^verbatim>\<open>points[-k, 1]\<close>, read only where \<open>k\<close> is at most the number of
  rows.\<close>

definition x_at :: "ndarray \<Rightarrow> nat \<Rightarrow> real" where
  "x_at points k = fst (rows points ! (length (rows points) - k))"

definition y_at :: "ndarray \<Rightarrow> nat \<Rightarrow> complex" where
  "y_at points k = snd (rows points ! (length (rows points) - k))"

text \<open>\<^verbatim>\<open>points.all()\<close>: every entry of the array is nonzero (true of an array with no rows).\<close>

definition np_all :: "ndarray \<Rightarrow> bool" where
  "np_all points = list_all (\<lambda>(x, y). x \<noteq> 0 \<and> y \<noteq> 0) (rows points)"

subsection \<open>One step: \<^verbatim>\<open>next_root\<close> and \<^verbatim>\<open>next_root_mp\<close>\<close>

text \<open>
  \<^verbatim>\<open>sp.newton(func, start, args=arguments, maxiter=200)\<close> and
  \<^verbatim>\<open>mp.findroot(func, start, solver, tol, ...)\<close>: the equation, the solver's name and its
  tolerance are fixed for one trace, so a solver is a function of the argument tuple and
  the starting guess. A start of \<open>None\<close> is a start that is not a finite number (see
  the predictors below). \<^verbatim>\<open>next_root_mp\<close> builds its root as
  \<^verbatim>\<open>float(mp.re(root_mp)) + 1j * float(mp.im(root_mp))\<close>, a Python complex.
\<close>

type_synonym solver = "real list \<Rightarrow> complex option \<Rightarrow> error + number"
type_synonym mp_solver = "real list \<Rightarrow> complex option \<Rightarrow> error + complex"

type_synonym step_result = "ndarray \<times> real \<times> real option \<times> real"

definition jump_limit :: real where
  "jump_limit = 0.1"

definition perturbation :: complex where
  "perturbation = (1 / 10 ^ 20) * \<i>"

text \<open>
  The value of \<^verbatim>\<open>grad\<close> in the two predicting regimes. When the last two x coincide the
  code divides by zero: NumPy gives an infinity or a nan, and so is everything computed
  from it. \<open>None\<close> stands for that.
\<close>

definition grad2 :: "ndarray \<Rightarrow> real \<Rightarrow> complex option" where
  "grad2 points step_size =
     (if x_at points 1 = x_at points 2 then None
      else Some (((y_at points 1 - y_at points 2)
                  + (y_at points 1 - 2 * y_at points 2 + y_at points 3))
                 * of_real \<bar>step_size / (x_at points 1 - x_at points 2)\<bar>))"

definition grad1 :: "ndarray \<Rightarrow> real \<Rightarrow> complex option" where
  "grad1 points step_size =
     (if x_at points 1 = x_at points 2 then None
      else Some ((y_at points 1 - y_at points 2)
                 * of_real \<bar>step_size / (x_at points 1 - x_at points 2)\<bar>))"

text \<open>\<^verbatim>\<open>points[-1, 1] + grad + extra\<close>, the start handed to the solver.\<close>

definition start_from :: "ndarray \<Rightarrow> complex option \<Rightarrow> complex \<Rightarrow> complex option" where
  "start_from points grad extra = map_option (\<lambda>g. y_at points 1 + g + extra) grad"

text \<open>The \<^verbatim>\<open>except IndexError\<close> branch of \<^verbatim>\<open>next_root\<close>.\<close>

definition next_root_short :: "solver \<Rightarrow> real \<Rightarrow> complex \<Rightarrow> real \<Rightarrow> real list \<Rightarrow> ndarray
    \<Rightarrow> error + step_result" where
  "next_root_short newton x_loc y_loc step_size arguments points =
     (if \<not> np_all points then
        (case newton arguments (Some y_loc) of
           Inl e \<Rightarrow> Inl e
         | Inr r \<Rightarrow>
             (case set_row0 points x_loc r of
                Inl e \<Rightarrow> Inl e
              | Inr points' \<Rightarrow> Inr (points', \<bar>step_size\<bar>, None, x_loc)))
      else if length (rows points) = 1 then
        (case newton arguments (Some (y_at points 1)) of
           Inl e \<Rightarrow> Inl e
         | Inr r \<Rightarrow> Inr (vstack points x_loc r, \<bar>step_size\<bar>, None, x_loc))
      else if length (rows points) = 2 then
        (case newton arguments (start_from points (grad1 points step_size) perturbation) of
           Inl e \<Rightarrow> Inl e
         | Inr r \<Rightarrow>
             if cmod (value_of r - y_at points 1) < jump_limit
                \<and> \<bar>x_loc - x_at points 1\<bar> < jump_limit
             then Inr (vstack points x_loc r, \<bar>step_size\<bar>, None, x_loc)
             else Inl ValueError)
      else Inr (points, \<bar>step_size\<bar>, None, x_loc))"

text \<open>The \<^verbatim>\<open>try\<close> block of \<^verbatim>\<open>next_root\<close>: reading \<^verbatim>\<open>points[-3, 1]\<close> raises IndexError on a
  trace of fewer than three rows, before the solver is called.\<close>

definition next_root_try :: "solver \<Rightarrow> real \<Rightarrow> real \<Rightarrow> real list \<Rightarrow> ndarray
    \<Rightarrow> error + step_result" where
  "next_root_try newton x_loc step_size arguments points =
     (if length (rows points) < 3 then Inl IndexError
      else
        (case newton arguments (start_from points (grad2 points step_size) perturbation) of
           Inl e \<Rightarrow> Inl e
         | Inr r \<Rightarrow>
             if cmod (value_of r - y_at points 1) < jump_limit
                \<and> \<bar>x_loc - x_at points 1\<bar> < jump_limit
             then Inr (vstack points x_loc r, \<bar>step_size\<bar>, None, x_loc)
             else Inl ValueError))"

definition next_root :: "solver \<Rightarrow> real \<Rightarrow> complex \<Rightarrow> real \<Rightarrow> real list \<Rightarrow> ndarray
    \<Rightarrow> error + step_result" where
  "next_root newton x_loc y_loc step_size arguments points =
     (let attempt = next_root_try newton x_loc step_size arguments points
      in if attempt = Inl IndexError
         then next_root_short newton x_loc y_loc step_size arguments points
         else attempt)"

text \<open>
  \<^verbatim>\<open>next_root_mp\<close>: the same three regimes on \<^verbatim>\<open>mp.findroot\<close>. The start is the predicted y
  with no perturbation, the acceptance test reads the root only, and the root is a Python
  complex.
\<close>

definition next_root_mp_short :: "mp_solver \<Rightarrow> real \<Rightarrow> complex \<Rightarrow> real \<Rightarrow> real list
    \<Rightarrow> ndarray \<Rightarrow> error + step_result" where
  "next_root_mp_short findroot x_loc y_loc step_size arguments points =
     (if \<not> np_all points then
        (case findroot arguments (Some y_loc) of
           Inl e \<Rightarrow> Inl e
         | Inr r \<Rightarrow>
             (case set_row0 points x_loc (PyComplex r) of
                Inl e \<Rightarrow> Inl e
              | Inr points' \<Rightarrow> Inr (points', \<bar>step_size\<bar>, None, x_loc)))
      else if length (rows points) = 1 then
        (case findroot arguments (Some (y_at points 1)) of
           Inl e \<Rightarrow> Inl e
         | Inr r \<Rightarrow> Inr (vstack points x_loc (PyComplex r), \<bar>step_size\<bar>, None, x_loc))
      else if length (rows points) = 2 then
        (case findroot arguments (start_from points (grad1 points step_size) 0) of
           Inl e \<Rightarrow> Inl e
         | Inr r \<Rightarrow>
             if cmod (r - y_at points 1) < jump_limit
             then Inr (vstack points x_loc (PyComplex r), \<bar>step_size\<bar>, None, x_loc)
             else Inl ValueError)
      else Inr (points, \<bar>step_size\<bar>, None, x_loc))"

definition next_root_mp_try :: "mp_solver \<Rightarrow> real \<Rightarrow> real \<Rightarrow> real list \<Rightarrow> ndarray
    \<Rightarrow> error + step_result" where
  "next_root_mp_try findroot x_loc step_size arguments points =
     (if length (rows points) < 3 then Inl IndexError
      else
        (case findroot arguments (start_from points (grad2 points step_size) 0) of
           Inl e \<Rightarrow> Inl e
         | Inr r \<Rightarrow>
             if cmod (r - y_at points 1) < 0.1
             then Inr (vstack points x_loc (PyComplex r), \<bar>step_size\<bar>, None, x_loc)
             else Inl ValueError))"

definition next_root_mp :: "mp_solver \<Rightarrow> real \<Rightarrow> complex \<Rightarrow> real \<Rightarrow> real list \<Rightarrow> ndarray
    \<Rightarrow> error + step_result" where
  "next_root_mp findroot x_loc y_loc step_size arguments points =
     (let attempt = next_root_mp_try findroot x_loc step_size arguments points
      in if attempt = Inl IndexError
         then next_root_mp_short findroot x_loc y_loc step_size arguments points
         else attempt)"


subsection \<open>The driver \<^verbatim>\<open>line_trace_sp\<close>\<close>

text \<open>
  The local variables of \<^verbatim>\<open>line_trace_sp\<close> that live across iterations. \<^verbatim>\<open>x_error\<close> is
  assigned afresh in every iteration before it is read, so it is local to the loop body.
\<close>

record trace_state =
  s_points :: ndarray
  s_step_size :: real
  s_x_error_loc :: "real option"
  s_x_loc :: real

text \<open>\<^verbatim>\<open>[x_loc if i is None else i for i in list(args)]\<close>\<close>

definition fill_arguments :: "real option list \<Rightarrow> real \<Rightarrow> real list" where
  "fill_arguments args x = map (\<lambda>i. case i of None \<Rightarrow> x | Some v \<Rightarrow> v) args"

text \<open>\<^verbatim>\<open>except (RuntimeError, ValueError)\<close>\<close>

definition caught :: "error \<Rightarrow> bool" where
  "caught e = (e = RuntimeError \<or> e = ValueError)"

text \<open>The \<^verbatim>\<open>if\<close>/\<^verbatim>\<open>elif\<close> chain after the \<^verbatim>\<open>try\<close> statement, the same in both loops.\<close>

definition bookkeeping :: "real \<Rightarrow> real option \<Rightarrow> step_result \<Rightarrow> trace_state" where
  "bookkeeping step_init x_error_loc res =
     (case res of (pts, step, x_error, x) \<Rightarrow>
        (case (x_error, x_error_loc) of
           (None, None) \<Rightarrow>
             \<lparr>s_points = pts, s_step_size = step, s_x_error_loc = None, s_x_loc = x\<rparr>
         | (Some xe, None) \<Rightarrow>
             \<lparr>s_points = pts, s_step_size = step, s_x_error_loc = Some xe, s_x_loc = x\<rparr>
         | (None, Some xel) \<Rightarrow>
             if \<bar>x\<bar> - \<bar>xel\<bar> \<ge> 10 * step
             then \<lparr>s_points = pts, s_step_size = step_init, s_x_error_loc = Some xel, s_x_loc = x\<rparr>
             else \<lparr>s_points = pts, s_step_size = step, s_x_error_loc = Some xel, s_x_loc = x\<rparr>
         | (Some xe, Some xel) \<Rightarrow>
             \<lparr>s_points = pts, s_step_size = step, s_x_error_loc = Some xel, s_x_loc = x\<rparr>))"

text \<open>The end of a pass: the chain above, then \<^verbatim>\<open>x_loc -= step_size\<close> in the leftward loop
  and \<^verbatim>\<open>x_loc += step_size\<close> in the rightward one.\<close>

definition left_advance :: "real \<Rightarrow> real option \<Rightarrow> step_result \<Rightarrow> trace_state" where
  "left_advance step_init x_error_loc res =
     (let st' = bookkeeping step_init x_error_loc res
      in st'\<lparr>s_x_loc := s_x_loc st' - s_step_size st'\<rparr>)"

definition right_advance :: "real \<Rightarrow> real option \<Rightarrow> step_result \<Rightarrow> trace_state" where
  "right_advance step_init x_error_loc res =
     (let st' = bookkeeping step_init x_error_loc res
      in st'\<lparr>s_x_loc := s_x_loc st' + s_step_size st'\<rparr>)"

text \<open>The halving branch: \<^verbatim>\<open>x_loc -= step_size; x_error, step_size = x_loc, step_size/2\<close>.\<close>

definition shrink :: "trace_state \<Rightarrow> step_result" where
  "shrink st =
     (s_points st, s_step_size st / 2, Some (s_x_loc st - s_step_size st),
      s_x_loc st - s_step_size st)"

text \<open>The \<^verbatim>\<open>except\<close> branch of the leftward loop.\<close>

definition left_except :: "mp_solver \<Rightarrow> complex \<Rightarrow> real list \<Rightarrow> real \<Rightarrow> trace_state
    \<Rightarrow> error + step_result" where
  "left_except findroot y_loc arguments step_init st =
     (if s_step_size st \<ge> step_init * (1 / 2 ^ 5) then Inr (shrink st)
      else next_root_mp findroot (s_x_loc st) y_loc (s_step_size st) arguments (s_points st))"

text \<open>
  One pass through the body of \<^verbatim>\<open>while np.real(x_loc) >= x_end_left\<close>. \<^verbatim>\<open>args\<close> is \<open>None\<close>
  for the default \<^verbatim>\<open>args=None\<close>, on which \<^verbatim>\<open>list(args)\<close> raises TypeError.
\<close>

definition left_body :: "solver \<Rightarrow> mp_solver \<Rightarrow> complex \<Rightarrow> real option list option \<Rightarrow> real
    \<Rightarrow> trace_state \<Rightarrow> error + trace_state" where
  "left_body newton findroot y_loc args step_init st =
     (case args of
        None \<Rightarrow> Inl TypeError
      | Some a \<Rightarrow>
          (let arguments = fill_arguments a (s_x_loc st);
               handled =
                 (case next_root newton (s_x_loc st) y_loc (- s_step_size st) arguments
                         (s_points st) of
                    Inr res \<Rightarrow> Inr res
                  | Inl e \<Rightarrow>
                      if caught e then left_except findroot y_loc arguments step_init st
                      else Inl e)
           in case handled of
                Inl e \<Rightarrow> Inl e
              | Inr res \<Rightarrow> Inr (left_advance step_init (s_x_error_loc st) res)))"

text \<open>One pass through the body of \<^verbatim>\<open>while np.real(x_loc) <= x_end_right\<close>: the
  \<^verbatim>\<open>except\<close> branch halves the step whatever its size; \<^verbatim>\<open>flip_func\<close> is built and not used.\<close>

definition right_body :: "solver \<Rightarrow> complex \<Rightarrow> real option list option \<Rightarrow> real
    \<Rightarrow> trace_state \<Rightarrow> error + trace_state" where
  "right_body newton y_loc args step_init st =
     (case args of
        None \<Rightarrow> Inl TypeError
      | Some a \<Rightarrow>
          (let arguments = fill_arguments a (s_x_loc st);
               handled =
                 (case next_root newton (s_x_loc st) y_loc (s_step_size st) arguments
                         (s_points st) of
                    Inr res \<Rightarrow> Inr res
                  | Inl e \<Rightarrow> if caught e then Inr (shrink st) else Inl e)
           in case handled of
                Inl e \<Rightarrow> Inl e
              | Inr res \<Rightarrow> Inr (right_advance step_init (s_x_error_loc st) res)))"

text \<open>
  The two \<^verbatim>\<open>while\<close> loops. Neither need end (a solver that always fails makes the rightward
  loop move x away from its bound for ever), so they run on fuel: \<open>None\<close> is "still looping
  when the fuel ran out", \<open>Some (Inl e)\<close> an exception that leaves \<^verbatim>\<open>line_trace_sp\<close>.
\<close>

fun left_loop :: "nat \<Rightarrow> solver \<Rightarrow> mp_solver \<Rightarrow> complex \<Rightarrow> real option list option \<Rightarrow> real
    \<Rightarrow> real \<Rightarrow> trace_state \<Rightarrow> (error + trace_state) option" where
  "left_loop 0 newton findroot y_loc args step_init x_end_left st = None"
| "left_loop (Suc n) newton findroot y_loc args step_init x_end_left st =
     (if s_x_loc st \<ge> x_end_left then
        (case left_body newton findroot y_loc args step_init st of
           Inl e \<Rightarrow> Some (Inl e)
         | Inr st' \<Rightarrow> left_loop n newton findroot y_loc args step_init x_end_left st')
      else Some (Inr st))"

fun right_loop :: "nat \<Rightarrow> solver \<Rightarrow> complex \<Rightarrow> real option list option \<Rightarrow> real
    \<Rightarrow> real \<Rightarrow> trace_state \<Rightarrow> (error + trace_state) option" where
  "right_loop 0 newton y_loc args step_init x_end_right st = None"
| "right_loop (Suc n) newton y_loc args step_init x_end_right st =
     (if s_x_loc st \<le> x_end_right then
        (case right_body newton y_loc args step_init st of
           Inl e \<Rightarrow> Some (Inl e)
         | Inr st' \<Rightarrow> right_loop n newton y_loc args step_init x_end_right st')
      else Some (Inr st))"

text \<open>\<^verbatim>\<open>np.round(x, 4)\<close>: to the nearest multiple of 1e-4, a tie to the even one.\<close>

definition round_half_even :: "real \<Rightarrow> int" where
  "round_half_even r =
     (let f = \<lfloor>r\<rfloor>; d = r - of_int f
      in if d < 1 / 2 then f else if d > 1 / 2 then f + 1 else if even f then f else f + 1)"

definition np_round4 :: "real \<Rightarrow> real" where
  "np_round4 x = of_int (round_half_even (x * 10 ^ 4)) / 10 ^ 4"

text \<open>
  \<^verbatim>\<open>line_trace_sp\<close>. \<^verbatim>\<open>wordy\<close> only prints (and is handed to \<^verbatim>\<open>next_root_mp\<close> in the place of
  \<^verbatim>\<open>tol\<close>), \<^verbatim>\<open>func\<close>, \<^verbatim>\<open>func_mp\<close> and \<^verbatim>\<open>solver\<close> select what the two root finders compute:
  they are the parameters \<open>newton\<close> and \<open>findroot\<close>.
\<close>

definition line_trace_sp :: "nat \<Rightarrow> solver \<Rightarrow> mp_solver \<Rightarrow> real \<Rightarrow> complex \<Rightarrow> real \<Rightarrow> real
    \<Rightarrow> real \<Rightarrow> real option list option \<Rightarrow> (error + ndarray) option" where
  "line_trace_sp fuel newton findroot x_loc y_loc step_size x_end_left x_end_right args =
     (let step_init = step_size;
          st0 = \<lparr>s_points = Array Float64 [(0, 0)], s_step_size = step_size,
                 s_x_error_loc = None, s_x_loc = x_loc\<rparr>
      in case left_loop fuel newton findroot y_loc args step_init x_end_left st0 of
           None \<Rightarrow> None
         | Some (Inl e) \<Rightarrow> Some (Inl e)
         | Some (Inr st1) \<Rightarrow>
             (let pts = Array (dtype_of (s_points st1)) (rev (rows (s_points st1)));
                  st2 = st1\<lparr>s_points := pts, s_x_loc := x_at pts 1 + s_step_size st1\<rparr>
              in case right_loop fuel newton y_loc args step_init x_end_right st2 of
                   None \<Rightarrow> None
                 | Some (Inl e) \<Rightarrow> Some (Inl e)
                 | Some (Inr st3) \<Rightarrow>
                     Some (Inr (Array (dtype_of (s_points st3))
                                 (map (\<lambda>(x, y). (np_round4 x, y)) (rows (s_points st3)))))))"

text \<open>\<open>n\<close> consecutive passes through the body of the leftward loop.\<close>

fun left_steps :: "nat \<Rightarrow> solver \<Rightarrow> mp_solver \<Rightarrow> complex \<Rightarrow> real option list option \<Rightarrow> real
    \<Rightarrow> trace_state \<Rightarrow> error + trace_state" where
  "left_steps 0 newton findroot y_loc args step_init st = Inr st"
| "left_steps (Suc n) newton findroot y_loc args step_init st =
     (case left_body newton findroot y_loc args step_init st of
        Inl e \<Rightarrow> Inl e
      | Inr st' \<Rightarrow> left_steps n newton findroot y_loc args step_init st')"

text \<open>A root finder that never converges: every call raises RuntimeError.\<close>

definition always_fails :: solver where
  "always_fails arguments start = Inl RuntimeError"


section \<open>The grid scanner\<close>

subsection \<open>NumPy and Python primitives the scanner uses\<close>

text \<open>
  \<^verbatim>\<open><\<close> between NumPy complex scalars is the lexicographic order on (real part, imaginary
  part); a real operand has imaginary part 0.
\<close>

definition np_less :: "complex \<Rightarrow> complex \<Rightarrow> bool" where
  "np_less a b = (Re a < Re b \<or> (Re a = Re b \<and> Im a < Im b))"

text \<open>\<^verbatim>\<open>np.isclose(a, b, atol=1e-6)\<close> with the default \<^verbatim>\<open>rtol=1e-5\<close>.\<close>

definition np_isclose :: "complex \<Rightarrow> complex \<Rightarrow> bool" where
  "np_isclose a b = (cmod (a - b) \<le> 1 / 10 ^ 6 + 1 / 10 ^ 5 * cmod b)"

text \<open>\<^verbatim>\<open>np.isclose(root, points, atol=1e-6).any()\<close>: \<^verbatim>\<open>points\<close> is the list of \<^verbatim>\<open>[x_loc, root]\<close>
  rows, so the root is compared with both entries of every row.\<close>

definition close_to_any :: "complex \<Rightarrow> point list \<Rightarrow> bool" where
  "close_to_any r points =
     list_ex (\<lambda>(x, y). np_isclose r (of_real x) \<or> np_isclose r y) points"

text \<open>\<^verbatim>\<open>np.linspace(a, b, n)\<close>\<close>

definition linspace :: "real \<Rightarrow> real \<Rightarrow> nat \<Rightarrow> real list" where
  "linspace a b n = map (\<lambda>i. a + of_nat i * ((b - a) / of_nat (n - 1))) [0..<n]"

text \<open>Subscripting \<^verbatim>\<open>xs[i]\<close>: an index from \<open>-len(xs)\<close> up to \<open>-1\<close> reads from the back, and
  one outside \<open>-len(xs) .. len(xs) - 1\<close> is an IndexError.\<close>

definition py_get :: "'a list \<Rightarrow> int \<Rightarrow> error + 'a" where
  "py_get xs i =
     (if 0 \<le> i \<and> i < int (length xs) then Inr (xs ! nat i)
      else if i < 0 \<and> - int (length xs) \<le> i then Inr (xs ! nat (int (length xs) + i))
      else Inl IndexError)"

subsection \<open>\<^verbatim>\<open>grid_solver\<close>\<close>

text \<open>
  The equation is \<^verbatim>\<open>func(y, **args)\<close>: a function of the keyword dictionary and of y.
  \<^verbatim>\<open>sp.newton\<close> takes the partial application and a start, \<^verbatim>\<open>sp.brentq\<close> and \<^verbatim>\<open>sp.brenth\<close>
  take it and a bracket.
\<close>

type_synonym equation = "(string \<rightharpoonup> real) \<Rightarrow> complex \<Rightarrow> complex"
type_synonym newton_solver = "(complex \<Rightarrow> complex) \<Rightarrow> complex \<Rightarrow> error + complex"
type_synonym bracket_solver = "(complex \<Rightarrow> complex) \<Rightarrow> real \<Rightarrow> real \<Rightarrow> error + real"

text \<open>\<^verbatim>\<open>if np.imag(root) != 0 and np.imag(root) < 1e-5: root = np.real(root)\<close>\<close>

definition snap :: "complex \<Rightarrow> complex" where
  "snap r = (if Im r \<noteq> 0 \<and> Im r < 1 / 10 ^ 5 then of_real (Re r) else r)"

text \<open>The acceptance block, the same under the three methods. It runs inside a loop over
  \<^verbatim>\<open>y_range\<close>, so \<^verbatim>\<open>y_range[0]\<close> and \<^verbatim>\<open>y_range[-1]\<close> exist.\<close>

definition accept_root :: "real list \<Rightarrow> real \<Rightarrow> complex \<Rightarrow> point list \<Rightarrow> point list" where
  "accept_root y_range x_loc r points =
     (if (np_less (of_real (hd y_range)) r \<and> np_less r (of_real (last y_range)))
         \<and> \<not> close_to_any r points
      then points @ [(x_loc, snap r)]
      else points)"

text \<open>\<^verbatim>\<open>for y_loc in y_range\<close> under \<^verbatim>\<open>sp.newton\<close>: only RuntimeError is caught.\<close>

fun newton_ys :: "newton_solver \<Rightarrow> (complex \<Rightarrow> complex) \<Rightarrow> real list \<Rightarrow> real \<Rightarrow> real list
    \<Rightarrow> point list \<Rightarrow> error + point list" where
  "newton_ys newton func_part y_range x_loc [] points = Inr points"
| "newton_ys newton func_part y_range x_loc (y_loc # ys) points =
     (case newton func_part (of_real y_loc) of
        Inl e \<Rightarrow>
          if e = RuntimeError then newton_ys newton func_part y_range x_loc ys points
          else Inl e
      | Inr r \<Rightarrow>
          newton_ys newton func_part y_range x_loc ys (accept_root y_range x_loc r points))"

definition newton_column :: "newton_solver \<Rightarrow> real list \<Rightarrow> (complex \<Rightarrow> complex) \<Rightarrow> real
    \<Rightarrow> point list \<Rightarrow> error + point list" where
  "newton_column newton y_range func_part x_loc points =
     newton_ys newton func_part y_range x_loc y_range points"

text \<open>\<^verbatim>\<open>np.where(root_locs)[0]\<close>: the indices \<open>i\<close> where the real part changes sign between
  \<open>i\<close> and \<open>i + 1\<close> and the value at \<open>i\<close> has modulus below 1.\<close>

definition root_locs :: "complex list \<Rightarrow> nat list" where
  "root_locs func_grid =
     filter (\<lambda>i. Re (func_grid ! i) * Re (func_grid ! (i + 1)) < 0 \<and> cmod (func_grid ! i) < 1)
       [0..<length func_grid - 1]"

text \<open>\<^verbatim>\<open>for i in np.where(root_locs)[0]\<close>: the two reads of \<^verbatim>\<open>y_range_local\<close> stand before
  the \<^verbatim>\<open>try\<close>; RuntimeError and ValueError of the solver are caught.\<close>

fun bracket_candidates :: "bracket_solver \<Rightarrow> (complex \<Rightarrow> complex) \<Rightarrow> real list \<Rightarrow> real
    \<Rightarrow> real list \<Rightarrow> nat list \<Rightarrow> point list \<Rightarrow> error + point list" where
  "bracket_candidates brent func_part y_range x_loc y_range_local [] points = Inr points"
| "bracket_candidates brent func_part y_range x_loc y_range_local (i # rest) points =
     (case py_get y_range_local (int i - 2) of
        Inl e \<Rightarrow> Inl e
      | Inr brent_start \<Rightarrow>
          (case py_get y_range_local (int i + 2) of
             Inl e \<Rightarrow> Inl e
           | Inr brent_end \<Rightarrow>
               (case brent func_part brent_start brent_end of
                  Inl e \<Rightarrow>
                    if e = RuntimeError \<or> e = ValueError
                    then bracket_candidates brent func_part y_range x_loc y_range_local rest
                           points
                    else Inl e
                | Inr r \<Rightarrow>
                    bracket_candidates brent func_part y_range x_loc y_range_local rest
                      (accept_root y_range x_loc (of_real r) points))))"

fun bracket_ys :: "bracket_solver \<Rightarrow> (complex \<Rightarrow> complex) \<Rightarrow> real list \<Rightarrow> real \<Rightarrow> real
    \<Rightarrow> real list \<Rightarrow> point list \<Rightarrow> error + point list" where
  "bracket_ys brent func_part y_range step_size x_loc [] points = Inr points"
| "bracket_ys brent func_part y_range step_size x_loc (y_loc # ys) points =
     (let y_range_local = linspace (y_loc - step_size) (y_loc + step_size) 10000;
          func_grid = map (\<lambda>y. func_part (of_real y)) y_range_local
      in case bracket_candidates brent func_part y_range x_loc y_range_local
                (root_locs func_grid) points of
           Inl e \<Rightarrow> Inl e
         | Inr points' \<Rightarrow> bracket_ys brent func_part y_range step_size x_loc ys points')"

definition bracket_column :: "bracket_solver \<Rightarrow> real list \<Rightarrow> real \<Rightarrow> (complex \<Rightarrow> complex)
    \<Rightarrow> real \<Rightarrow> point list \<Rightarrow> error + point list" where
  "bracket_column brent y_range step_size func_part x_loc points =
     bracket_ys brent func_part y_range step_size x_loc y_range points"

text \<open>\<^verbatim>\<open>step_size = np.abs(y_range[0]-y_range[-1])/(2*len(y_range))\<close>\<close>

definition half_step :: "real list \<Rightarrow> error + real" where
  "half_step y_range =
     (if y_range = [] then Inl IndexError
      else Inr (\<bar>hd y_range - last y_range\<bar> / (2 * of_nat (length y_range))))"

text \<open>
  \<^verbatim>\<open>for x_loc in x_range\<close>, the same under the three methods: the caller's dictionary
  \<^verbatim>\<open>args\<close> is written in place, so the sweep returns it with the points.
\<close>

fun x_sweep :: "((complex \<Rightarrow> complex) \<Rightarrow> real \<Rightarrow> point list \<Rightarrow> error + point list)
    \<Rightarrow> equation \<Rightarrow> (string \<rightharpoonup> string) \<Rightarrow> real list \<Rightarrow> (string \<rightharpoonup> real) \<Rightarrow> point list
    \<Rightarrow> error + (string \<rightharpoonup> real) \<times> point list" where
  "x_sweep column func axes [] args points = Inr (args, points)"
| "x_sweep column func axes (x_loc # xs) args points =
     (case axes ''x_axis'' of
        None \<Rightarrow> Inl KeyError
      | Some k \<Rightarrow>
          (let args' = args(k \<mapsto> x_loc);
               func_part = func args'
           in case column func_part x_loc points of
                Inl e \<Rightarrow> Inl e
              | Inr points' \<Rightarrow> x_sweep column func axes xs args' points'))"

text \<open>
  \<^verbatim>\<open>grid_solver\<close> returns the points and leaves the dictionary as the second component
  shows. The summary it prints reads \<^verbatim>\<open>points[:, 1]\<close>, which raises IndexError on the
  one-dimensional empty array that no accepted root leaves behind.
\<close>

definition grid_solver :: "newton_solver \<Rightarrow> bracket_solver \<Rightarrow> bracket_solver \<Rightarrow> equation
    \<Rightarrow> real list \<Rightarrow> real list \<Rightarrow> (string \<rightharpoonup> string) \<Rightarrow> (string \<rightharpoonup> real) \<Rightarrow> string
    \<Rightarrow> error + point list \<times> (string \<rightharpoonup> real)" where
  "grid_solver newton brentq brenth func x_range y_range axes args method =
     (case (if method = ''sp.newton''
            then x_sweep (newton_column newton y_range) func axes x_range args []
            else Inr (args, [])) of
        Inl e \<Rightarrow> Inl e
      | Inr (args1, points1) \<Rightarrow>
     (case (if method = ''sp.brentq''
            then (case half_step y_range of
                    Inl e \<Rightarrow> Inl e
                  | Inr step_size \<Rightarrow>
                      x_sweep (bracket_column brentq y_range step_size) func axes x_range
                        args1 points1)
            else Inr (args1, points1)) of
        Inl e \<Rightarrow> Inl e
      | Inr (args2, points2) \<Rightarrow>
     (case (if method = ''sp.brenth''
            then (case half_step y_range of
                    Inl e \<Rightarrow> Inl e
                  | Inr step_size \<Rightarrow>
                      x_sweep (bracket_column brenth y_range step_size) func axes x_range
                        args2 points2)
            else Inr (args2, points2)) of
        Inl e \<Rightarrow> Inl e
      | Inr (args3, points3) \<Rightarrow>
          if points3 = [] then Inl IndexError else Inr (points3, args3))))"

subsection \<open>\<^verbatim>\<open>find_sign_change\<close>\<close>

text \<open>A keyword value is a number (an entry of \<^verbatim>\<open>args\<close>) or a two-dimensional array (a
  mesh grid).\<close>

datatype pyval = Scalar real | Grid "real list list"

text \<open>\<^verbatim>\<open>np.meshgrid(x_range, y_range)\<close>: one row for every y, one column for every x.\<close>

definition meshgrid :: "real list \<Rightarrow> real list \<Rightarrow> real list list \<times> real list list" where
  "meshgrid x_range y_range =
     (map (\<lambda>y. x_range) y_range, map (\<lambda>y. map (\<lambda>x. y) x_range) y_range)"

text \<open>
  A Python call that unpacks two dictionaries as keyword arguments (here \<^verbatim>\<open>grid_axes\<close> and
  \<^verbatim>\<open>args\<close>, each with two stars) raises TypeError when a key occurs in both, and passes
  their union otherwise. Calling a \<^verbatim>\<open>functools.partial\<close> object with keywords merges them
  over the keywords stored in it: a keyword given at the call replaces the stored one.
\<close>

definition merge_call_keywords :: "(string \<rightharpoonup> 'v) \<Rightarrow> (string \<rightharpoonup> 'v) \<Rightarrow> error + (string \<rightharpoonup> 'v)" where
  "merge_call_keywords a b = (if dom a \<inter> dom b \<noteq> {} then Inl TypeError else Inr (a ++ b))"

definition partial_call :: "((string \<rightharpoonup> 'v) \<Rightarrow> 'r) \<Rightarrow> (string \<rightharpoonup> 'v) \<Rightarrow> (string \<rightharpoonup> 'v) \<Rightarrow> 'r" where
  "partial_call func kw call_kw = func (kw ++ call_kw)"

text \<open>
  The selection after the call: row \<open>i\<close> of the mask is true at column \<open>j\<close> where the real
  part of \<^verbatim>\<open>func_grid\<close> changes sign between rows \<open>i\<close> and \<open>i + 1\<close> and the entry at row
  \<open>i\<close> is below 10; the mask selects from rows 1.. of the mesh grids, row by row. A
  \<^verbatim>\<open>func_grid\<close> of another shape than the mesh makes the boolean index raise IndexError.
\<close>

definition sign_change_points :: "real list \<Rightarrow> real list \<Rightarrow> complex list list
    \<Rightarrow> error + (real \<times> real) list" where
  "sign_change_points x_range y_range func_grid =
     (if length func_grid \<noteq> length y_range
         \<or> list_ex (\<lambda>row. length row \<noteq> length x_range) func_grid
      then Inl IndexError
      else Inr (concat (map (\<lambda>i. concat (map (\<lambda>j.
              if Re (func_grid ! i ! j) * Re (func_grid ! (i + 1) ! j) < 0
                 \<and> np_less (func_grid ! i ! j) 10
              then [(x_range ! j, y_range ! (i + 1))] else [])
            [0..<length x_range])) [0..<length y_range - 1])))"

definition find_sign_change :: "((string \<rightharpoonup> pyval) \<Rightarrow> error + complex list list) \<Rightarrow> real list
    \<Rightarrow> real list \<Rightarrow> (string \<rightharpoonup> string) \<Rightarrow> (string \<rightharpoonup> pyval) \<Rightarrow> error + (real \<times> real) list" where
  "find_sign_change func x_range y_range axes args =
     (let (x_grid, y_grid) = meshgrid x_range y_range
      in case axes ''y_axis'' of
           None \<Rightarrow> Inl KeyError
         | Some ky \<Rightarrow>
             (case axes ''x_axis'' of
                None \<Rightarrow> Inl KeyError
              | Some kx \<Rightarrow>
                  (let grid_axes = [ky \<mapsto> Grid y_grid, kx \<mapsto> Grid x_grid]
                   in case merge_call_keywords grid_axes args of
                        Inl e \<Rightarrow> Inl e
                      | Inr call_kw \<Rightarrow>
                          (case partial_call func args call_kw of
                             Inl e \<Rightarrow> Inl e
                           | Inr func_grid \<Rightarrow>
                               sign_change_points x_range y_range func_grid))))"

text \<open>An equation for the examples: \<^verbatim>\<open>def shifted(x, y, k): return y - k\<close> on arrays.\<close>

definition shifted :: "(string \<rightharpoonup> pyval) \<Rightarrow> error + complex list list" where
  "shifted kw =
     (case (kw ''x'', kw ''y'', kw ''k'') of
        (Some (Grid x), Some (Grid y), Some (Scalar k)) \<Rightarrow>
          Inr (map (map (\<lambda>v. of_real (v - k))) y)
      | _ \<Rightarrow> Inl TypeError)"

subsection \<open>\<^verbatim>\<open>find_first_imag\<close>\<close>

text \<open>\<^verbatim>\<open>sp.newton(func, y_loc, args=tuple(arguments), tol=1e-20)\<close> on a seed of the grid: a
  function of the argument tuple and the seed, with a NumPy number for a root.\<close>

type_synonym scan_solver = "real list \<Rightarrow> complex \<Rightarrow> error + complex"

text \<open>\<^verbatim>\<open>for y_loc in y_range\<close>: the first root between the ends of \<^verbatim>\<open>y_range\<close> with imaginary
  part above 1e-5 is returned; RuntimeError is caught.\<close>

fun first_imag_ys :: "scan_solver \<Rightarrow> real list \<Rightarrow> real list \<Rightarrow> real \<Rightarrow> real list
    \<Rightarrow> error + point option" where
  "first_imag_ys newton arguments y_range x_loc [] = Inr None"
| "first_imag_ys newton arguments y_range x_loc (y_loc # ys) =
     (case newton arguments (of_real y_loc) of
        Inl e \<Rightarrow>
          if e = RuntimeError then first_imag_ys newton arguments y_range x_loc ys
          else Inl e
      | Inr r \<Rightarrow>
          if (np_less (of_real (hd y_range)) r \<and> np_less r (of_real (last y_range)))
             \<and> Im r > 1 / 10 ^ 5
          then Inr (Some (x_loc, r))
          else first_imag_ys newton arguments y_range x_loc ys)"

text \<open>\<^verbatim>\<open>for x_loc in x_range\<close>. \<^verbatim>\<open>args\<close> is \<open>None\<close> for the default \<^verbatim>\<open>args=(None)\<close>, which is
  \<^verbatim>\<open>None\<close> and not a tuple: \<^verbatim>\<open>list(args)\<close> raises TypeError.\<close>

fun first_imag_xs :: "scan_solver \<Rightarrow> real list \<Rightarrow> real option list option \<Rightarrow> real list
    \<Rightarrow> error + point option" where
  "first_imag_xs newton y_range args [] = Inr None"
| "first_imag_xs newton y_range args (x_loc # xs) =
     (case args of
        None \<Rightarrow> Inl TypeError
      | Some a \<Rightarrow>
          (case first_imag_ys newton (fill_arguments a x_loc) y_range x_loc y_range of
             Inl e \<Rightarrow> Inl e
           | Inr (Some found) \<Rightarrow> Inr (Some found)
           | Inr None \<Rightarrow> first_imag_xs newton y_range args xs))"

definition find_first_imag :: "scan_solver \<Rightarrow> real list \<Rightarrow> real list \<Rightarrow> real option list option
    \<Rightarrow> error + point option" where
  "find_first_imag newton x_range y_range args = first_imag_xs newton y_range args x_range"




section \<open>Properties of the continuation engine\<close>

lemmas nr_defs = next_root_def next_root_try_def next_root_short_def next_root_mp_def
  next_root_mp_try_def next_root_mp_short_def np_all_def x_at_def y_at_def grad1_def grad2_def
  start_from_def jump_limit_def perturbation_def

lemmas lt_defs = left_body_def right_body_def left_except_def shrink_def bookkeeping_def
  fill_arguments_def caught_def left_advance_def right_advance_def

subsection \<open>Writing into the array\<close>

lemma rows_vstack: "rows (vstack points x v) = rows points @ [(x, value_of v)]"
  by (cases points) simp

lemma set_row0_rows:
  assumes "set_row0 points x v = Inr points'"
  shows "length (rows points') = length (rows points) \<and> dtype_of points' = dtype_of points"
proof (cases points)
  case (Array dt rs)
  with assms show ?thesis by (cases dt; cases v) auto
qed

lemma set_row0_np_scalar:
  assumes "np_scalar v"
  shows "set_row0 points x v \<noteq> Inl e"
proof (cases points)
  case (Array dt rs)
  with assms show ?thesis by (cases dt; cases v) auto
qed

text \<open>A Python complex cannot be written into the array of floats that
  \<^verbatim>\<open>np.zeros((1, 2))\<close> is.\<close>

lemma set_row0_float_py_complex:
  "set_row0 (Array Float64 rs) x (PyComplex z) = Inl TypeError"
  by simp

subsection \<open>One step\<close>

text \<open>What \<^verbatim>\<open>next_root\<close> returns beside the trace: \<^verbatim>\<open>np.abs(step_size)\<close>, no error marker and
  the x it was given.\<close>

lemma next_root_Inr:
  assumes "next_root newton x_loc y_loc step arguments points = Inr (pts, s, xe, x)"
  shows "s = \<bar>step\<bar> \<and> xe = None \<and> x = x_loc"
  using assms
  by (auto simp: next_root_def next_root_try_def next_root_short_def Let_def
      split: if_splits sum.splits)

lemma next_root_mp_Inr:
  assumes "next_root_mp findroot x_loc y_loc step arguments points = Inr (pts, s, xe, x)"
  shows "s = \<bar>step\<bar> \<and> xe = None \<and> x = x_loc"
  using assms
  by (auto simp: next_root_mp_def next_root_mp_try_def next_root_mp_short_def Let_def
      split: if_splits sum.splits)

text \<open>The step size enters \<^verbatim>\<open>next_root\<close> through \<^verbatim>\<open>np.abs\<close> only, so its sign is immaterial.\<close>

lemma next_root_neg:
  "next_root newton x_loc y_loc (- step) arguments points =
   next_root newton x_loc y_loc step arguments points"
proof -
  have g: "grad1 points (- step) = grad1 points step" "grad2 points (- step) = grad2 points step"
    by (simp_all add: grad1_def grad2_def)
  have t: "next_root_try newton x_loc (- step) arguments points =
           next_root_try newton x_loc step arguments points"
    unfolding next_root_try_def g abs_minus_cancel by (rule refl)
  have s: "next_root_short newton x_loc y_loc (- step) arguments points =
           next_root_short newton x_loc y_loc step arguments points"
    unfolding next_root_short_def g abs_minus_cancel by (rule refl)
  show ?thesis
    unfolding next_root_def t s by (rule refl)
qed

text \<open>With a solver that fails at every call, \<^verbatim>\<open>next_root\<close> fails on every trace that has
  a row.\<close>

lemma next_root_fails:
  assumes fail: "\<forall>arguments start. \<exists>e. newton arguments start = Inl e \<and> caught e"
    and ne: "rows points \<noteq> []"
  shows "\<exists>e. next_root newton x_loc y_loc step arguments points = Inl e \<and> caught e"
proof (cases "length (rows points) < 3")
  case True
  moreover have "length (rows points) \<noteq> 0" using ne by simp
  ultimately have len: "length (rows points) = 1 \<or> length (rows points) = 2" by linarith
  have attempt: "next_root_try newton x_loc step arguments points = Inl IndexError"
    using True by (simp add: next_root_try_def)
  obtain e1 where e1: "newton arguments (Some y_loc) = Inl e1" "caught e1" using fail by blast
  obtain e2 where e2: "newton arguments (Some (y_at points 1)) = Inl e2" "caught e2"
    using fail by blast
  obtain e3 where e3:
    "newton arguments (start_from points (grad1 points step) perturbation) = Inl e3"
    "caught e3" using fail by blast
  show ?thesis
    using len attempt e1 e2 e3 by (auto simp: next_root_def next_root_short_def)
next
  case False
  obtain e where e:
    "newton arguments (start_from points (grad2 points step) perturbation) = Inl e"
    "caught e" using fail by blast
  then have "e \<noteq> IndexError" by (auto simp: caught_def)
  with False e show ?thesis
    by (auto simp: next_root_def next_root_try_def)
qed

text \<open>When every call of the solver returns a float or a NumPy scalar, or raises
  RuntimeError or ValueError, \<^verbatim>\<open>next_root\<close> raises nothing but these two: its own exception
  is the ValueError of a jump.\<close>

lemma next_root_error_caught:
  assumes conv: "\<forall>arguments start. (\<exists>v. newton arguments start = Inr v \<and> np_scalar v)
                   \<or> (\<exists>e. newton arguments start = Inl e \<and> caught e)"
    and err: "next_root newton x_loc y_loc step arguments points = Inl e"
  shows "caught e"
proof -
  have sp: "caught e'" if "newton arguments' start = Inl e'" for arguments' start e'
    using conv [rule_format, of arguments' start] that by auto
  have store: "set_row0 points x v \<noteq> Inl e'" if "newton arguments' start = Inr v"
    for arguments' start v x e'
    using conv [rule_format, of arguments' start] that by (auto simp: set_row0_np_scalar)
  show ?thesis
    using err sp store
    by (auto simp: next_root_def next_root_try_def next_root_short_def Let_def caught_def
        split: if_splits sum.splits)
qed

text \<open>
  The fixed-precision path validates what it appends to a trace of two or more rows: the
  new row is at \<^verbatim>\<open>x_loc\<close>, its root is within 0.1 of the last root and \<^verbatim>\<open>x_loc\<close> within 0.1 of
  the last x.
\<close>

lemma next_root_appended_within_jump_limit:
  assumes ret: "next_root newton x_loc y_loc step arguments points = Inr (points', s, xe, x)"
    and app: "rows points' = rows points @ [p]"
    and two: "2 \<le> length (rows points)"
  shows "fst p = x_loc \<and> cmod (snd p - y_at points 1) < 0.1 \<and> \<bar>x_loc - x_at points 1\<bar> < 0.1"
proof -
  have no_update: "set_row0 points x_loc v \<noteq> Inr points'" for v
  proof
    assume "set_row0 points x_loc v = Inr points'"
    then have "length (rows points') = length (rows points)" by (simp add: set_row0_rows)
    with app show False by simp
  qed
  show ?thesis
    using ret app two no_update
    by (auto simp: next_root_def next_root_try_def next_root_short_def Let_def jump_limit_def
        rows_vstack split: if_splits sum.splits)
qed

text \<open>
  C1 (accepted steps satisfy both jump bounds, on \<^verbatim>\<open>next_root\<close> and \<^verbatim>\<open>next_root_mp\<close> alike).
  \<^verbatim>\<open>next_root_mp\<close> tests the root only. On a trace whose last x is 0.03, asked for a point
  at x = 5 with a solver that returns the root 1, it appends (5, 1) in the three-row regime
  and in the two-row regime, 4.97 away in x; \<^verbatim>\<open>next_root\<close> on the same inputs raises the
  ValueError of a jump.
\<close>

theorem next_root_mp_accepts_distant_x:
  "next_root_mp (\<lambda>arguments start. Inr 1) 5 y_loc 0.01 arguments
       (Array dt [(0.01, 1), (0.02, 1), (0.03, 1)])
     = Inr (Array Complex128 [(0.01, 1), (0.02, 1), (0.03, 1), (5, 1)], 0.01, None, 5)
   \<and> next_root_mp (\<lambda>arguments start. Inr 1) 5 y_loc 0.01 arguments
       (Array dt [(0.02, 1), (0.03, 1)])
     = Inr (Array Complex128 [(0.02, 1), (0.03, 1), (5, 1)], 0.01, None, 5)
   \<and> next_root (\<lambda>arguments start. Inr (NpComplex 1)) 5 y_loc 0.01 arguments
       (Array dt [(0.01, 1), (0.02, 1), (0.03, 1)])
     = Inl ValueError
   \<and> next_root (\<lambda>arguments start. Inr (NpComplex 1)) 5 y_loc 0.01 arguments
       (Array dt [(0.02, 1), (0.03, 1)])
     = Inl ValueError"
  by (simp add: nr_defs)

text \<open>
  The predictor of \<^verbatim>\<open>next_root\<close>, for distinct last two x. With three rows or more the
  solver starts from the last root plus the second-order \<^verbatim>\<open>grad\<close> plus 1e-20i; with exactly
  two rows, none of whose entries is zero, from the last root plus the first-order
  \<^verbatim>\<open>grad\<close> plus 1e-20i. When the last two x coincide the start is not a finite number.
\<close>

lemma next_root_predictor_three:
  assumes "3 \<le> length (rows points)"
    and "x_at points 1 \<noteq> x_at points 2"
    and "newton arguments
           (Some (y_at points 1
            + ((y_at points 1 - y_at points 2) + (y_at points 1 - 2 * y_at points 2 + y_at points 3))
              * of_real \<bar>step / (x_at points 1 - x_at points 2)\<bar>
            + (1 / 10 ^ 20) * \<i>)) = Inr r"
  shows "next_root newton x_loc y_loc step arguments points =
     (if cmod (value_of r - y_at points 1) < 0.1 \<and> \<bar>x_loc - x_at points 1\<bar> < 0.1
      then Inr (vstack points x_loc r, \<bar>step\<bar>, None, x_loc) else Inl ValueError)"
  using assms
  by (simp add: next_root_def next_root_try_def jump_limit_def grad2_def start_from_def
      perturbation_def)

lemma next_root_predictor_two:
  assumes "length (rows points) = 2" and "np_all points"
    and "x_at points 1 \<noteq> x_at points 2"
    and "newton arguments
           (Some (y_at points 1
            + (y_at points 1 - y_at points 2) * of_real \<bar>step / (x_at points 1 - x_at points 2)\<bar>
            + (1 / 10 ^ 20) * \<i>)) = Inr r"
  shows "next_root newton x_loc y_loc step arguments points =
     (if cmod (value_of r - y_at points 1) < 0.1 \<and> \<bar>x_loc - x_at points 1\<bar> < 0.1
      then Inr (vstack points x_loc r, \<bar>step\<bar>, None, x_loc) else Inl ValueError)"
  using assms
  by (simp add: next_root_def next_root_try_def next_root_short_def jump_limit_def grad1_def
      start_from_def perturbation_def)

lemma next_root_predictor_not_finite:
  assumes "x_at points 1 = x_at points 2"
  shows "start_from points (grad1 points step) extra = None"
    and "start_from points (grad2 points step) extra = None"
  using assms by (simp_all add: start_from_def grad1_def grad2_def)

text \<open>
  C6 (with exactly two points \<^verbatim>\<open>next_root\<close> predicts by the first-order slope and starts
  the corrector from the prediction plus 1e-20i). \<^verbatim>\<open>points.all() == 0\<close> holds of every array
  with a zero entry, not only of the fresh \<^verbatim>\<open>np.zeros((1, 2))\<close>. On the two-row trace
  [(0, 1), (0.05, 1.01)], whose first x is 0, \<^verbatim>\<open>next_root\<close> takes the seeding branch: the
  solver starts from \<^verbatim>\<open>y_loc\<close>, no slope is used, no jump test is made and row 0 is
  overwritten (in a complex array with the root as it is).
\<close>

theorem next_root_two_points_with_zero_reseeds:
  "next_root newton x_loc y_loc step_size arguments (Array dt [(0, 1), (0.05, 1.01)]) =
     (case newton arguments (Some y_loc) of
        Inl e \<Rightarrow> Inl e
      | Inr r \<Rightarrow>
          (case set_row0 (Array dt [(0, 1), (0.05, 1.01)]) x_loc r of
             Inl e \<Rightarrow> Inl e
           | Inr points' \<Rightarrow> Inr (points', \<bar>step_size\<bar>, None, x_loc)))
   \<and> set_row0 (Array Complex128 [(0, 1), (0.05, 1.01)]) x_loc r
       = Inr (Array Complex128 [(x_loc, value_of r), (0.05, 1.01)])"
  by (simp add: nr_defs split: sum.splits)

subsection \<open>The loop bodies of \<^verbatim>\<open>line_trace_sp\<close>\<close>

lemma left_body_caught:
  assumes "next_root newton (s_x_loc st) y_loc (- s_step_size st)
             (fill_arguments a (s_x_loc st)) (s_points st) = Inl e"
    and "caught e"
  shows "left_body newton findroot y_loc (Some a) step_init st =
     (case left_except findroot y_loc (fill_arguments a (s_x_loc st)) step_init st of
        Inl e' \<Rightarrow> Inl e'
      | Inr res \<Rightarrow> Inr (left_advance step_init (s_x_error_loc st) res))"
  using assms by (simp add: left_body_def)

lemma right_body_caught:
  assumes "next_root newton (s_x_loc st) y_loc (s_step_size st)
             (fill_arguments a (s_x_loc st)) (s_points st) = Inl e"
    and "caught e"
  shows "right_body newton y_loc (Some a) step_init st =
     Inr (right_advance step_init (s_x_error_loc st) (shrink st))"
  using assms by (simp add: right_body_def)

text \<open>A pass that halves the step: the trace is untouched, the first such pass records
  \<^verbatim>\<open>x_loc - step_size\<close> as the error location, and x moves on from there by the halved
  step.\<close>

lemma left_advance_shrink:
  "left_advance step_init (s_x_error_loc st) (shrink st) =
     \<lparr>s_points = s_points st, s_step_size = s_step_size st / 2,
      s_x_error_loc = (case s_x_error_loc st of None \<Rightarrow> Some (s_x_loc st - s_step_size st)
                       | Some xel \<Rightarrow> Some xel),
      s_x_loc = s_x_loc st - s_step_size st - s_step_size st / 2\<rparr>"
  by (simp add: left_advance_def bookkeeping_def shrink_def split: option.splits)

lemma right_advance_shrink:
  "right_advance step_init (s_x_error_loc st) (shrink st) =
     \<lparr>s_points = s_points st, s_step_size = s_step_size st / 2,
      s_x_error_loc = (case s_x_error_loc st of None \<Rightarrow> Some (s_x_loc st - s_step_size st)
                       | Some xel \<Rightarrow> Some xel),
      s_x_loc = s_x_loc st - s_step_size st + s_step_size st / 2\<rparr>"
  by (simp add: right_advance_def bookkeeping_def shrink_def split: option.splits)

text \<open>The recovery policy of the leftward loop, as the code has it.\<close>

lemma left_body_recovery_policy:
  assumes "next_root newton (s_x_loc st) y_loc (- s_step_size st)
             (fill_arguments a (s_x_loc st)) (s_points st) = Inl e"
    and "caught e"
  shows "left_body newton findroot y_loc (Some a) step_init st =
     (if s_step_size st \<ge> step_init * (1 / 2 ^ 5)
      then Inr (left_advance step_init (s_x_error_loc st) (shrink st))
      else (case next_root_mp findroot (s_x_loc st) y_loc (s_step_size st)
                   (fill_arguments a (s_x_loc st)) (s_points st) of
              Inl e' \<Rightarrow> Inl e'
            | Inr res \<Rightarrow> Inr (left_advance step_init (s_x_error_loc st) res)))"
  by (simp add: left_body_caught [OF assms] left_except_def)

text \<open>
  C2 (halve while the step is at least 2^(-5) of the initial one, otherwise escalate, in both
  sweeps). The rightward loop has no threshold and no call of \<^verbatim>\<open>next_root_mp\<close>: with the
  initial step 0.4 and the step already at 0.00625, below 0.4 \<times> 2^(-5) = 0.0125, a failing
  step is answered by halving again, to 0.003125.
\<close>

theorem right_body_halves_below_threshold:
  "right_body always_fails 1 (Some [None]) 0.4
     \<lparr>s_points = Array dt [(1, 1)], s_step_size = 0.00625, s_x_error_loc = Some 1.2,
      s_x_loc = 1.1\<rparr>
   = Inr \<lparr>s_points = Array dt [(1, 1)], s_step_size = 0.003125, s_x_error_loc = Some 1.2,
          s_x_loc = 1.096875\<rparr>
   \<and> (0.00625 :: real) < 0.4 * (1 / 2 ^ 5)"
  by (simp add: lt_defs nr_defs always_fails_def)

subsection \<open>Consecutive failures\<close>

lemma left_body_halves:
  assumes fail: "\<forall>arguments start. \<exists>e. newton arguments start = Inl e \<and> caught e"
    and ne: "rows (s_points st) \<noteq> []"
    and big: "s_step_size st \<ge> step_init * (1 / 2 ^ 5)"
  shows "left_body newton findroot y_loc (Some a) step_init st =
           Inr (left_advance step_init (s_x_error_loc st) (shrink st))"
proof -
  obtain e where "next_root newton (s_x_loc st) y_loc (- s_step_size st)
             (fill_arguments a (s_x_loc st)) (s_points st) = Inl e" "caught e"
    using next_root_fails [OF fail ne] by blast
  then show ?thesis using big by (simp add: left_body_caught left_except_def)
qed

lemma left_steps_halve:
  assumes fail: "\<forall>arguments start. \<exists>e. newton arguments start = Inl e \<and> caught e"
  shows "rows (s_points st) \<noteq> [] \<Longrightarrow>
    (\<forall>j<k. s_step_size st / 2 ^ j \<ge> step_init * (1 / 2 ^ 5)) \<Longrightarrow>
    \<exists>st'. left_steps k newton findroot y_loc (Some a) step_init st = Inr st' \<and>
          s_step_size st' = s_step_size st / 2 ^ k \<and> s_points st' = s_points st"
proof (induction k arbitrary: st)
  case 0
  then show ?case by simp
next
  case (Suc k)
  let ?st1 = "left_advance step_init (s_x_error_loc st) (shrink st)"
  have big: "s_step_size st \<ge> step_init * (1 / 2 ^ 5)"
    using Suc.prems(2) by (auto dest: spec [of _ 0])
  have body: "left_body newton findroot y_loc (Some a) step_init st = Inr ?st1"
    using left_body_halves [OF fail Suc.prems(1) big] .
  have st1: "s_points ?st1 = s_points st" "s_step_size ?st1 = s_step_size st / 2"
    by (simp_all add: left_advance_shrink)
  have "\<forall>j<k. s_step_size ?st1 / 2 ^ j \<ge> step_init * (1 / 2 ^ 5)"
  proof (intro allI impI)
    fix j assume "j < k"
    then have "s_step_size st / 2 ^ Suc j \<ge> step_init * (1 / 2 ^ 5)"
      using Suc.prems(2) by (auto dest: spec [of _ "Suc j"])
    then show "s_step_size ?st1 / 2 ^ j \<ge> step_init * (1 / 2 ^ 5)"
      by (simp add: st1)
  qed
  from Suc.IH [OF _ this] st1 Suc.prems(1)
  obtain st' where "left_steps k newton findroot y_loc (Some a) step_init ?st1 = Inr st'"
    "s_step_size st' = s_step_size ?st1 / 2 ^ k" "s_points st' = s_points ?st1"
    by auto
  then show ?case using body st1 by simp
qed

text \<open>
  C3, as the claim states it, fails: from the initial step 0.4, with a solver that fails at
  every call and an arbitrary-precision solver that would return 2, the third failure
  leaves the step at 0.05 and the fourth halves it again, to 0.025; the trace still holds
  its zero row, so \<^verbatim>\<open>next_root_mp\<close> has not run (0.05 is not below 0.0125).
\<close>

theorem fourth_failure_halves_again:
  "left_steps 3 always_fails (\<lambda>arguments start. Inr 2) 1 (Some [None]) 0.4
     \<lparr>s_points = Array Float64 [(0, 0)], s_step_size = 0.4, s_x_error_loc = None,
      s_x_loc = 2\<rparr>
   = Inr \<lparr>s_points = Array Float64 [(0, 0)], s_step_size = 0.05, s_x_error_loc = Some 1.6,
          s_x_loc = 0.95\<rparr>
   \<and> left_steps 4 always_fails (\<lambda>arguments start. Inr 2) 1 (Some [None]) 0.4
     \<lparr>s_points = Array Float64 [(0, 0)], s_step_size = 0.4, s_x_error_loc = None,
      s_x_loc = 2\<rparr>
   = Inr \<lparr>s_points = Array Float64 [(0, 0)], s_step_size = 0.025, s_x_error_loc = Some 1.6,
          s_x_loc = 0.875\<rparr>"
  by (simp add: eval_nat_numeral lt_defs nr_defs always_fails_def)

text \<open>
  C3, amended: given an initial step size of 0.4, consecutive solver failures in the
  leftward loop of \<^verbatim>\<open>line_trace_sp\<close> halve the step size exactly six times: after \<open>k \<le> 6\<close>
  failures it is 0.4 / 2^k and the trace is unchanged. After the sixth it is 0.00625, below
  the threshold 0.4 \<times> 2^(-5) = 0.0125, and the seventh consecutive failure is answered by
  \<^verbatim>\<open>next_root_mp\<close> instead of another halving.
\<close>

theorem six_halvings_then_escalation:
  assumes fail: "\<forall>arguments start. \<exists>e. newton arguments start = Inl e \<and> caught e"
    and ne: "rows (s_points st) \<noteq> []"
    and step: "s_step_size st = 0.4"
  shows "\<exists>st6.
      (\<forall>k\<le>6. \<exists>st'. left_steps k newton findroot y_loc (Some a) 0.4 st = Inr st' \<and>
                   s_step_size st' = 0.4 / 2 ^ k \<and> s_points st' = s_points st)
    \<and> left_steps 6 newton findroot y_loc (Some a) 0.4 st = Inr st6
    \<and> s_step_size st6 = 0.00625
    \<and> left_body newton findroot y_loc (Some a) 0.4 st6 =
        (case next_root_mp findroot (s_x_loc st6) y_loc 0.00625
                (fill_arguments a (s_x_loc st6)) (s_points st) of
           Inl e \<Rightarrow> Inl e
         | Inr res \<Rightarrow> Inr (left_advance 0.4 (s_x_error_loc st6) res))"
proof -
  have upto: "\<exists>st'. left_steps k newton findroot y_loc (Some a) 0.4 st = Inr st' \<and>
                   s_step_size st' = 0.4 / 2 ^ k \<and> s_points st' = s_points st" if "k \<le> 6" for k
  proof -
    have "\<forall>j<k. s_step_size st / 2 ^ j \<ge> 0.4 * (1 / 2 ^ 5)"
    proof (intro allI impI)
      fix j assume "j < k"
      with that have "j \<le> 5" by simp
      then have "(2::real) ^ j \<le> 2 ^ 5" by (intro power_increasing) simp_all
      then show "s_step_size st / 2 ^ j \<ge> 0.4 * (1 / 2 ^ 5)"
        by (simp add: step field_simps)
    qed
    from left_steps_halve [OF fail ne this] show ?thesis by (simp add: step)
  qed
  from upto [of 6] obtain st6 where st6:
    "left_steps 6 newton findroot y_loc (Some a) 0.4 st = Inr st6"
    "s_step_size st6 = 0.4 / 2 ^ 6" "s_points st6 = s_points st" by auto
  have small: "s_step_size st6 = 0.00625" using st6(2) by simp
  obtain e where e: "next_root newton (s_x_loc st6) y_loc (- s_step_size st6)
             (fill_arguments a (s_x_loc st6)) (s_points st6) = Inl e" "caught e"
    using next_root_fails [of newton "s_points st6"] fail ne st6(3) by metis
  have esc: "left_except findroot y_loc (fill_arguments a (s_x_loc st6)) 0.4 st6 =
      next_root_mp findroot (s_x_loc st6) y_loc 0.00625
        (fill_arguments a (s_x_loc st6)) (s_points st)"
    by (simp add: left_except_def small st6(3))
  have "left_body newton findroot y_loc (Some a) 0.4 st6 =
        (case next_root_mp findroot (s_x_loc st6) y_loc 0.00625
                (fill_arguments a (s_x_loc st6)) (s_points st) of
           Inl e \<Rightarrow> Inl e
         | Inr res \<Rightarrow> Inr (left_advance 0.4 (s_x_error_loc st6) res))"
    unfolding left_body_caught [OF e] esc by (rule refl)
  with upto st6(1) small show ?thesis by blast
qed

text \<open>
  The amended C3 on a trace of two points, (2, 1) and (1.6, 1), with x at 1.2: six
  failures bring the step to 0.00625 and leave the trace alone, and on the seventh pass
  \<^verbatim>\<open>next_root_mp\<close> runs: the root 1 of the arbitrary-precision solver is appended at
  x = 0.01875.
\<close>

theorem six_halvings_then_escalation_witness:
  "(\<forall>arguments start. \<exists>e. always_fails arguments start = Inl e \<and> caught e)
   \<and> left_steps 6 always_fails (\<lambda>arguments start. Inr 1) 1 (Some [None]) 0.4
       \<lparr>s_points = Array Complex128 [(2, 1), (1.6, 1)], s_step_size = 0.4,
        s_x_error_loc = None, s_x_loc = 1.2\<rparr>
     = Inr \<lparr>s_points = Array Complex128 [(2, 1), (1.6, 1)], s_step_size = 0.00625,
            s_x_error_loc = Some 0.8, s_x_loc = 0.01875\<rparr>
   \<and> left_steps 7 always_fails (\<lambda>arguments start. Inr 1) 1 (Some [None]) 0.4
       \<lparr>s_points = Array Complex128 [(2, 1), (1.6, 1)], s_step_size = 0.4,
        s_x_error_loc = None, s_x_loc = 1.2\<rparr>
     = Inr \<lparr>s_points = Array Complex128 [(2, 1), (1.6, 1), (0.01875, 1)],
            s_step_size = 0.00625, s_x_error_loc = Some 0.8, s_x_loc = 0.0125\<rparr>"
  using six_halvings_then_escalation [of always_fails
      "\<lparr>s_points = Array Complex128 [(2, 1), (1.6, 1)], s_step_size = 0.4,
        s_x_error_loc = None, s_x_loc = 1.2\<rparr>"
      "\<lambda>arguments start. Inr 1" 1 "[None]"]
  by (simp add: eval_nat_numeral lt_defs nr_defs always_fails_def)

text \<open>
  On the seed array itself the seventh pass ends the trace: the array of floats
  \<^verbatim>\<open>np.zeros((1, 2))\<close> cannot take the Python complex that \<^verbatim>\<open>next_root_mp\<close> writes into row 0,
  and the TypeError leaves \<^verbatim>\<open>line_trace_sp\<close>.
\<close>

lemma seventh_failure_on_seed_array:
  "left_steps 7 always_fails (\<lambda>arguments start. Inr 2) 1 (Some [None]) 0.4
     \<lparr>s_points = Array Float64 [(0, 0)], s_step_size = 0.4, s_x_error_loc = None,
      s_x_loc = 2\<rparr>
   = Inl TypeError"
  by (simp add: eval_nat_numeral lt_defs nr_defs always_fails_def)

subsection \<open>Which exceptions leave \<^verbatim>\<open>line_trace_sp\<close>\<close>

lemma left_body_Inl_iff:
  assumes conv: "\<forall>arguments start. (\<exists>v. newton arguments start = Inr v \<and> np_scalar v)
                   \<or> (\<exists>e. newton arguments start = Inl e \<and> caught e)"
  shows "left_body newton findroot y_loc (Some a) step_init st = Inl e \<longleftrightarrow>
     (\<exists>e'. next_root newton (s_x_loc st) y_loc (- s_step_size st)
              (fill_arguments a (s_x_loc st)) (s_points st) = Inl e' \<and> caught e')
     \<and> s_step_size st < step_init * (1 / 2 ^ 5)
     \<and> next_root_mp findroot (s_x_loc st) y_loc (s_step_size st)
           (fill_arguments a (s_x_loc st)) (s_points st) = Inl e"
proof (cases "next_root newton (s_x_loc st) y_loc (- s_step_size st)
                (fill_arguments a (s_x_loc st)) (s_points st)")
  case (Inl e')
  then have c: "caught e'" using conv next_root_error_caught by blast
  show ?thesis
    unfolding left_body_recovery_policy [OF Inl c] using Inl c
    by (auto split: sum.splits)
next
  case (Inr res)
  then show ?thesis by (simp add: left_body_def)
qed

lemma right_body_no_error:
  assumes conv: "\<forall>arguments start. (\<exists>v. newton arguments start = Inr v \<and> np_scalar v)
                   \<or> (\<exists>e. newton arguments start = Inl e \<and> caught e)"
  shows "right_body newton y_loc (Some a) step_init st \<noteq> Inl e"
proof (cases "next_root newton (s_x_loc st) y_loc (s_step_size st)
                (fill_arguments a (s_x_loc st)) (s_points st)")
  case (Inl e')
  then have "caught e'" using conv next_root_error_caught by blast
  with Inl show ?thesis by (simp add: right_body_caught)
next
  case (Inr res)
  then show ?thesis by (simp add: right_body_def)
qed

text \<open>An exception that ends the leftward loop was raised by the loop body at a state the
  loop reached, with x still at or above the left bound.\<close>

lemma left_loop_error:
  "left_loop n newton findroot y_loc args step_init x_end_left st = Some (Inl e) \<Longrightarrow>
    \<exists>k st'. left_steps k newton findroot y_loc args step_init st = Inr st'
           \<and> x_end_left \<le> s_x_loc st'
           \<and> left_body newton findroot y_loc args step_init st' = Inl e"
proof (induction n arbitrary: st)
  case 0
  then show ?case by simp
next
  case (Suc n)
  from Suc.prems have cond: "x_end_left \<le> s_x_loc st" by (simp split: if_splits)
  show ?case
  proof (cases "left_body newton findroot y_loc args step_init st")
    case (Inl e')
    with Suc.prems cond have "e' = e" by simp
    with Inl cond have "left_steps 0 newton findroot y_loc args step_init st = Inr st
           \<and> x_end_left \<le> s_x_loc st
           \<and> left_body newton findroot y_loc args step_init st = Inl e" by simp
    then show ?thesis by blast
  next
    case (Inr st1)
    with Suc.prems cond have "left_loop n newton findroot y_loc args step_init x_end_left st1
        = Some (Inl e)" by simp
    from Suc.IH [OF this] obtain k st' where
      "left_steps k newton findroot y_loc args step_init st1 = Inr st'"
      "x_end_left \<le> s_x_loc st'"
      "left_body newton findroot y_loc args step_init st' = Inl e" by blast
    with Inr have "left_steps (Suc k) newton findroot y_loc args step_init st = Inr st'
           \<and> x_end_left \<le> s_x_loc st'
           \<and> left_body newton findroot y_loc args step_init st' = Inl e" by simp
    then show ?thesis by blast
  qed
qed

lemma right_loop_no_error:
  assumes conv: "\<forall>arguments start. (\<exists>v. newton arguments start = Inr v \<and> np_scalar v)
                   \<or> (\<exists>e. newton arguments start = Inl e \<and> caught e)"
  shows "right_loop n newton y_loc (Some a) step_init x_end_right st \<noteq> Some (Inl e)"
proof (induction n arbitrary: st)
  case 0
  then show ?case by simp
next
  case (Suc n)
  show ?case
  proof (cases "right_body newton y_loc (Some a) step_init st")
    case (Inl e')
    then show ?thesis using right_body_no_error [OF conv] by blast
  next
    case (Inr st')
    then show ?thesis using Suc.IH by simp
  qed
qed

text \<open>
  C4, as the claim states it, fails: with a fixed-precision solver that never converges
  and an arbitrary-precision solver that raises the ValueError of non-convergence, the
  trace from x = 2 with step 0.4 halves six times, escalates on the seventh pass, and the
  ValueError of \<^verbatim>\<open>mp.findroot\<close> leaves \<^verbatim>\<open>line_trace_sp\<close>: the call of \<^verbatim>\<open>next_root_mp\<close> stands in
  the \<^verbatim>\<open>except\<close> branch, outside any \<^verbatim>\<open>try\<close>.
\<close>

theorem escalation_failure_leaves_line_trace:
  "line_trace_sp 7 always_fails (\<lambda>arguments start. Inl ValueError) 2 1 0.4 0 3 (Some [None])
     = Some (Inl ValueError)"
  by (simp add: eval_nat_numeral line_trace_sp_def lt_defs nr_defs always_fails_def)

text \<open>
  C4, amended: let every call of the fixed-precision solver return a float or a NumPy
  scalar, or raise RuntimeError or ValueError (as a convergence failure does). Then a
  failure of the fixed-precision step never leaves \<^verbatim>\<open>line_trace_sp\<close>: the rightward loop body
  raises nothing, and the leftward loop body raises \<open>e\<close> exactly when the fixed-precision
  step failed, the step size is below 2^(-5) of the initial one and \<^verbatim>\<open>next_root_mp\<close>, called on
  the same x and trace, raises \<open>e\<close>. An exception that leaves \<^verbatim>\<open>line_trace_sp\<close> is one that
  the leftward loop body raised in this way at a state the loop reached from the seed
  state: a failure on the arbitrary-precision escalation path is not caught.
\<close>

theorem only_escalation_errors_leave_line_trace:
  assumes conv: "\<forall>arguments start. (\<exists>v. newton arguments start = Inr v \<and> np_scalar v)
                   \<or> (\<exists>e. newton arguments start = Inl e \<and> caught e)"
  shows "(\<forall>step_init st e. right_body newton y_loc (Some a) step_init st \<noteq> Inl e)
     \<and> (\<forall>step_init st e.
          left_body newton findroot y_loc (Some a) step_init st = Inl e \<longleftrightarrow>
            (\<exists>e'. next_root newton (s_x_loc st) y_loc (- s_step_size st)
                     (fill_arguments a (s_x_loc st)) (s_points st) = Inl e' \<and> caught e')
            \<and> s_step_size st < step_init * (1 / 2 ^ 5)
            \<and> next_root_mp findroot (s_x_loc st) y_loc (s_step_size st)
                  (fill_arguments a (s_x_loc st)) (s_points st) = Inl e)
     \<and> (\<forall>fuel x_loc step_size x_end_left x_end_right e.
          line_trace_sp fuel newton findroot x_loc y_loc step_size x_end_left x_end_right
            (Some a) = Some (Inl e) \<longrightarrow>
          (\<exists>k st. left_steps k newton findroot y_loc (Some a) step_size
                     \<lparr>s_points = Array Float64 [(0, 0)], s_step_size = step_size,
                      s_x_error_loc = None, s_x_loc = x_loc\<rparr> = Inr st
                 \<and> x_end_left \<le> s_x_loc st
                 \<and> left_body newton findroot y_loc (Some a) step_size st = Inl e))"
proof (intro conjI allI impI)
  fix step_init st e
  show "right_body newton y_loc (Some a) step_init st \<noteq> Inl e"
    by (rule right_body_no_error [OF conv])
next
  fix step_init st e
  show "left_body newton findroot y_loc (Some a) step_init st = Inl e \<longleftrightarrow>
            (\<exists>e'. next_root newton (s_x_loc st) y_loc (- s_step_size st)
                     (fill_arguments a (s_x_loc st)) (s_points st) = Inl e' \<and> caught e')
            \<and> s_step_size st < step_init * (1 / 2 ^ 5)
            \<and> next_root_mp findroot (s_x_loc st) y_loc (s_step_size st)
                  (fill_arguments a (s_x_loc st)) (s_points st) = Inl e"
    by (rule left_body_Inl_iff [OF conv])
next
  fix fuel x_loc step_size x_end_left x_end_right e
  let ?st0 = "\<lparr>s_points = Array Float64 [(0, 0)], s_step_size = step_size,
               s_x_error_loc = None, s_x_loc = x_loc\<rparr>"
  assume err: "line_trace_sp fuel newton findroot x_loc y_loc step_size x_end_left x_end_right
            (Some a) = Some (Inl e)"
  have "left_loop fuel newton findroot y_loc (Some a) step_size x_end_left ?st0 = Some (Inl e)"
    using err right_loop_no_error [OF conv]
    by (auto simp: line_trace_sp_def Let_def split: option.splits sum.splits)
  then show "\<exists>k st. left_steps k newton findroot y_loc (Some a) step_size ?st0 = Inr st
                 \<and> x_end_left \<le> s_x_loc st
                 \<and> left_body newton findroot y_loc (Some a) step_size st = Inl e"
    by (rule left_loop_error)
qed

text \<open>
  The amended C4 on the run above: the solver that never converges meets the hypothesis,
  the trace ends in the ValueError, and that ValueError is what \<^verbatim>\<open>next_root_mp\<close> raises on the
  seventh pass, at x = 0.81875 with the step at 0.00625, after the fixed-precision step
  failed there.
\<close>

theorem only_escalation_errors_leave_line_trace_witness:
  "(\<forall>arguments start. (\<exists>v. always_fails arguments start = Inr v \<and> np_scalar v)
        \<or> (\<exists>e. always_fails arguments start = Inl e \<and> caught e))
   \<and> line_trace_sp 7 always_fails (\<lambda>arguments start. Inl ValueError) 2 1 0.4 0 3
       (Some [None]) = Some (Inl ValueError)
   \<and> left_steps 6 always_fails (\<lambda>arguments start. Inl ValueError) 1 (Some [None]) 0.4
       \<lparr>s_points = Array Float64 [(0, 0)], s_step_size = 0.4, s_x_error_loc = None,
        s_x_loc = 2\<rparr>
     = Inr \<lparr>s_points = Array Float64 [(0, 0)], s_step_size = 0.00625,
            s_x_error_loc = Some 1.6, s_x_loc = 0.81875\<rparr>
   \<and> left_body always_fails (\<lambda>arguments start. Inl ValueError) 1 (Some [None]) 0.4
       \<lparr>s_points = Array Float64 [(0, 0)], s_step_size = 0.00625,
        s_x_error_loc = Some 1.6, s_x_loc = 0.81875\<rparr> = Inl ValueError
   \<and> next_root always_fails 0.81875 1 (- 0.00625) (fill_arguments [None] 0.81875)
       (Array Float64 [(0, 0)]) = Inl RuntimeError
   \<and> next_root_mp (\<lambda>arguments start. Inl ValueError) 0.81875 1 0.00625
       (fill_arguments [None] 0.81875) (Array Float64 [(0, 0)]) = Inl ValueError"
proof -
  have conv: "\<forall>arguments start. (\<exists>v. always_fails arguments start = Inr v \<and> np_scalar v)
        \<or> (\<exists>e. always_fails arguments start = Inl e \<and> caught e)"
    by (simp add: always_fails_def caught_def)
  have six: "left_steps 6 always_fails (\<lambda>arguments start. Inl ValueError) 1 (Some [None]) 0.4
       \<lparr>s_points = Array Float64 [(0, 0)], s_step_size = 0.4, s_x_error_loc = None,
        s_x_loc = 2\<rparr>
     = Inr \<lparr>s_points = Array Float64 [(0, 0)], s_step_size = 0.00625,
            s_x_error_loc = Some 1.6, s_x_loc = 0.81875\<rparr>"
    by (simp add: eval_nat_numeral lt_defs nr_defs always_fails_def)
  have run: "line_trace_sp 7 always_fails (\<lambda>arguments start. Inl ValueError) 2 1 0.4 0 3
      (Some [None]) = Some (Inl ValueError)"
    by (simp add: eval_nat_numeral line_trace_sp_def lt_defs nr_defs always_fails_def)
  have fp: "next_root always_fails 0.81875 1 (- 0.00625) (fill_arguments [None] 0.81875)
       (Array Float64 [(0, 0)]) = Inl RuntimeError"
    by (simp add: nr_defs always_fails_def)
  have mp: "next_root_mp (\<lambda>arguments start. Inl ValueError) 0.81875 1 0.00625
       (fill_arguments [None] 0.81875) (Array Float64 [(0, 0)]) = Inl ValueError"
    by (simp add: nr_defs)
  have "left_body always_fails (\<lambda>arguments start. Inl ValueError) 1 (Some [None]) 0.4
       \<lparr>s_points = Array Float64 [(0, 0)], s_step_size = 0.00625,
        s_x_error_loc = Some 1.6, s_x_loc = 0.81875\<rparr> = Inl ValueError"
    using only_escalation_errors_leave_line_trace [OF conv, of 1 "[None]"
        "\<lambda>arguments start. Inl ValueError", THEN conjunct2, THEN conjunct1, rule_format,
        of "0.4" "\<lparr>s_points = Array Float64 [(0, 0)], s_step_size = 0.00625,
             s_x_error_loc = Some 1.6, s_x_loc = 0.81875\<rparr>" ValueError]
      fp mp
    by (simp add: caught_def)
  with conv six run fp mp show ?thesis by blast
qed

subsection \<open>Restoring the step size\<close>

text \<open>The rule of the code, in both loops: after a fixed-precision step that completes,
  the step size goes back to its initial value when an error location is recorded and
  |x_loc| - |x_error_loc| is at least 10 times the step size; otherwise it stays.\<close>

lemma step_size_restore_rule:
  assumes ok: "next_root newton (s_x_loc st) y_loc (s_step_size st)
             (fill_arguments a (s_x_loc st)) (s_points st) = Inr res"
  shows "\<exists>l r. left_body newton findroot y_loc (Some a) step_init st = Inr l
      \<and> right_body newton y_loc (Some a) step_init st = Inr r
      \<and> s_step_size l = s_step_size r
      \<and> s_step_size r =
          (case s_x_error_loc st of
             None \<Rightarrow> \<bar>s_step_size st\<bar>
           | Some xel \<Rightarrow>
               if \<bar>s_x_loc st\<bar> - \<bar>xel\<bar> \<ge> 10 * \<bar>s_step_size st\<bar> then step_init
               else \<bar>s_step_size st\<bar>)"
proof -
  obtain pts s xe x where res: "res = (pts, s, xe, x)" by (cases res) auto
  have r: "s = \<bar>s_step_size st\<bar>" "xe = None" "x = s_x_loc st"
    using next_root_Inr ok res by blast+
  show ?thesis
    using ok res r
    by (simp add: left_body_def right_body_def next_root_neg left_advance_def
        right_advance_def bookkeeping_def split: option.splits)
qed

text \<open>
  The error location is written once, while \<^verbatim>\<open>x_error_loc\<close> is None, and never cleared. In a
  rightward sweep with the initial step 0.01 and an old error location at x = 1, a failure
  at x = 5 halves the step to 0.005 and leaves the marker at 1; the next step, accepted at
  x = 4.995, is 0.005 past the place of that shrink and already restores the step to 0.01.
\<close>

lemma stale_error_location_restores_at_once:
  "right_body (\<lambda>arguments start. if arguments = [5] then Inl RuntimeError
                                  else Inr (NpComplex 1)) 1 (Some [None]) 0.01
     \<lparr>s_points = Array Complex128 [(4.98, 1), (4.99, 1)], s_step_size = 0.01,
      s_x_error_loc = Some 1, s_x_loc = 5\<rparr>
   = Inr \<lparr>s_points = Array Complex128 [(4.98, 1), (4.99, 1)], s_step_size = 0.005,
          s_x_error_loc = Some 1, s_x_loc = 4.995\<rparr>
   \<and> right_body (\<lambda>arguments start. if arguments = [5] then Inl RuntimeError
                                    else Inr (NpComplex 1)) 1 (Some [None]) 0.01
     \<lparr>s_points = Array Complex128 [(4.98, 1), (4.99, 1)], s_step_size = 0.005,
      s_x_error_loc = Some 1, s_x_loc = 4.995\<rparr>
   = Inr \<lparr>s_points = Array Complex128 [(4.98, 1), (4.99, 1), (4.995, 1)],
          s_step_size = 0.01, s_x_error_loc = Some 1, s_x_loc = 5.005\<rparr>"
  by (simp add: lt_defs nr_defs)

text \<open>
  C5 (once a step completes and x has moved at least 10 times the step size past the place
  of the shrink, the step size is restored). The test reads |x_loc| - |x_error_loc|, which
  is right for a sweep that moves away from 0 and is not turned round for the other
  direction. In a leftward sweep over positive x, with the initial step 0.01: the solver
  fails once, at x = 5, and returns the root 1 everywhere else. The failure records the
  error location 4.99 and halves the step to 0.005. Eleven accepted steps later the last
  point is at x = 4.935, which is 0.055 \<ge> 10 \<times> 0.005 past 4.99, and the step is still 0.005.
\<close>

theorem leftward_sweep_keeps_shrunken_step:
  "left_steps 12 (\<lambda>arguments start. if arguments = [5] then Inl RuntimeError
                                      else Inr (NpComplex 1))
      (\<lambda>arguments start. Inr 2) 1 (Some [None]) 0.01
      \<lparr>s_points = Array Float64 [(0, 0)], s_step_size = 0.01, s_x_error_loc = None,
       s_x_loc = 5\<rparr>
   = Inr \<lparr>s_points = Array Complex128
                       [(4.985, 1), (4.98, 1), (4.975, 1), (4.97, 1), (4.965, 1), (4.96, 1),
                        (4.955, 1), (4.95, 1), (4.945, 1), (4.94, 1), (4.935, 1)],
          s_step_size = 0.005, s_x_error_loc = Some 4.99, s_x_loc = 4.93\<rparr>
   \<and> (4.99 :: real) - 4.935 \<ge> 10 * 0.005"
  by (simp add: eval_nat_numeral lt_defs nr_defs)

section \<open>Properties of the grid scanner\<close>

subsection \<open>Near-real snapping in \<^verbatim>\<open>grid_solver\<close>\<close>

text \<open>An accepted root is stored through \<open>snap\<close>, which changes it exactly when its imaginary
  part is nonzero and below 1e-5; that covers every nonzero imaginary part of magnitude
  below 1e-5, and every negative one of whatever magnitude.\<close>

lemma snap_changes_iff: "snap r \<noteq> r \<longleftrightarrow> Im r \<noteq> 0 \<and> Im r < 1 / 10 ^ 5"
  by (auto simp: snap_def complex_eq_iff)

lemma snap_near_real:
  assumes "Im r \<noteq> 0" and "\<bar>Im r\<bar> < 1 / 10 ^ 5"
  shows "snap r = of_real (Re r)"
  using assms by (auto simp: snap_def)

lemma accept_root_stores_snap:
  "accept_root y_range x_loc r points = points \<or>
   accept_root y_range x_loc r points = points @ [(x_loc, snap r)]"
  by (simp add: accept_root_def)

text \<open>
  C7 (a root is replaced by its real part only when the magnitude of its imaginary part is
  below 1e-5). The test is \<^verbatim>\<open>np.imag(root) < 1e-5\<close>, with no absolute value. With
  \<^verbatim>\<open>y_range = [0, 1]\<close> and a solver that converges to 0.5 - 1i from the first seed, the root
  is accepted (its real part lies between 0 and 1) and stored as 0.5: an imaginary part of
  magnitude 1 is dropped.
\<close>

theorem grid_solver_snaps_large_negative_imaginary:
  "grid_solver (\<lambda>f y. if y = 0 then Inr (Complex (1 / 2) (- 1)) else Inl RuntimeError)
      brentq brenth (\<lambda>kw y. y) [0] [0, 1] [''x_axis'' \<mapsto> ''x'', ''y_axis'' \<mapsto> ''y''] Map.empty
      ''sp.newton''
   = Inr ([(0, 1 / 2)], [''x'' \<mapsto> 0])
   \<and> snap (Complex (1 / 2) (- 1)) = 1 / 2"
  by (simp add: grid_solver_def newton_column_def accept_root_def np_less_def close_to_any_def
      snap_def complex_eq_iff)

subsection \<open>\<^verbatim>\<open>grid_solver\<close> writes the caller's dictionary\<close>

text \<open>A sweep over no x leaves the dictionary alone; a sweep over some x leaves it with the
  x-axis variable bound to the last x.\<close>

lemma x_sweep_args:
  "x_sweep column func axes xs args points = Inr (args', points') \<Longrightarrow>
     (xs = [] \<and> args' = args \<and> points' = points)
     \<or> (\<exists>k. axes ''x_axis'' = Some k \<and> xs \<noteq> [] \<and> args' = args(k \<mapsto> last xs))"
proof (induction xs arbitrary: args points)
  case Nil
  then show ?case by simp
next
  case (Cons x_loc xs)
  from Cons.prems obtain k where k: "axes ''x_axis'' = Some k"
    by (auto split: option.splits)
  from Cons.prems k obtain pts where
    rest: "x_sweep column func axes xs (args(k \<mapsto> x_loc)) pts = Inr (args', points')"
    by (auto simp: Let_def split: sum.splits)
  from Cons.IH [OF rest] k show ?case by auto
qed

text \<open>
  C9: whenever \<^verbatim>\<open>grid_solver\<close> returns, the method was one of the three supported ones,
  \<^verbatim>\<open>x_range\<close> was not empty, and the caller's \<^verbatim>\<open>args\<close> is what it was on entry with the key
  \<^verbatim>\<open>axes['x_axis']\<close> bound to the last x of the sweep. (A call that accepts no root does not
  return: its summary raises IndexError.)
\<close>

theorem grid_solver_writes_x_axis:
  assumes ret: "grid_solver newton brentq brenth func x_range y_range axes args method
                  = Inr (points, args')"
  shows "\<exists>k. axes ''x_axis'' = Some k \<and> x_range \<noteq> [] \<and> args' = args(k \<mapsto> last x_range)
           \<and> (method = ''sp.newton'' \<or> method = ''sp.brentq'' \<or> method = ''sp.brenth'')"
proof -
  consider (n) "method = ''sp.newton''" | (q) "method = ''sp.brentq''"
    | (h) "method = ''sp.brenth''"
    | (other) "method \<noteq> ''sp.newton''" "method \<noteq> ''sp.brentq''" "method \<noteq> ''sp.brenth''"
    by blast
  then show ?thesis
  proof cases
    case n
    with ret have sw: "x_sweep (newton_column newton y_range) func axes x_range args []
        = Inr (args', points)" and "points \<noteq> []"
      by (auto simp: grid_solver_def split: sum.splits if_splits)
    with x_sweep_args [OF sw] n show ?thesis by auto
  next
    case q
    with ret obtain step_size where
      sw: "x_sweep (bracket_column brentq y_range step_size) func axes x_range args []
        = Inr (args', points)" and "points \<noteq> []"
      by (auto simp: grid_solver_def split: sum.splits if_splits)
    with x_sweep_args [OF sw] q show ?thesis by auto
  next
    case h
    with ret obtain step_size where
      sw: "x_sweep (bracket_column brenth y_range step_size) func axes x_range args []
        = Inr (args', points)" and "points \<noteq> []"
      by (auto simp: grid_solver_def split: sum.splits if_splits)
    with x_sweep_args [OF sw] h show ?thesis by auto
  next
    case other
    with ret show ?thesis by (simp add: grid_solver_def)
  qed
qed

text \<open>
  C9 on a run: the equation y - 1/2 over x in [0, 1] and seeds [0, 1] under \<^verbatim>\<open>sp.newton\<close>,
  called with \<^verbatim>\<open>args = {'k': 3}\<close>. One root is kept, and the dictionary comes back with
  \<^verbatim>\<open>'x'\<close> bound to 1, the last x.
\<close>

theorem grid_solver_writes_x_axis_witness:
  "grid_solver (\<lambda>f y. Inr (1 / 2)) (\<lambda>f a b. Inl ValueError) (\<lambda>f a b. Inl ValueError) (\<lambda>kw y. y - 1 / 2) [0, 1] [0, 1]
      [''x_axis'' \<mapsto> ''x'', ''y_axis'' \<mapsto> ''y''] [''k'' \<mapsto> 3] ''sp.newton''
   = Inr ([(0, 1 / 2)], [''k'' \<mapsto> 3, ''x'' \<mapsto> 1])
   \<and> [''k'' \<mapsto> 3, ''x'' \<mapsto> (1::real)] = [''k'' \<mapsto> 3](''x'' \<mapsto> last [0, 1])"
proof -
  have run: "grid_solver (\<lambda>f y. Inr (1 / 2)) (\<lambda>f a b. Inl ValueError) (\<lambda>f a b. Inl ValueError) (\<lambda>kw y. y - 1 / 2) [0, 1] [0, 1]
      [''x_axis'' \<mapsto> ''x'', ''y_axis'' \<mapsto> ''y''] [''k'' \<mapsto> 3] ''sp.newton''
   = Inr ([(0, 1 / 2)], [''k'' \<mapsto> 3, ''x'' \<mapsto> 1])"
    by (simp add: grid_solver_def newton_column_def accept_root_def np_less_def close_to_any_def
        np_isclose_def snap_def)
  from grid_solver_writes_x_axis [OF run] run show ?thesis by simp
qed

subsection \<open>Keyword arguments in \<^verbatim>\<open>find_sign_change\<close>\<close>

lemma merge_grid_axes:
  "merge_call_keywords [ky \<mapsto> gy, kx \<mapsto> gx] args =
     (if args ky \<noteq> None \<or> args kx \<noteq> None then Inl TypeError
      else Inr ([ky \<mapsto> gy, kx \<mapsto> gx] ++ args))"
proof -
  have "dom [ky \<mapsto> gy, kx \<mapsto> gx] = {kx, ky}" by simp
  moreover have "{kx, ky} \<inter> dom args \<noteq> {} \<longleftrightarrow> kx \<in> dom args \<or> ky \<in> dom args" by blast
  moreover have "kx \<in> dom args \<or> ky \<in> dom args \<longleftrightarrow> args ky \<noteq> None \<or> args kx \<noteq> None"
    unfolding domIff by blast
  ultimately show ?thesis unfolding merge_call_keywords_def by presburger
qed

lemma partial_call_same_keywords:
  assumes "args ky = None" and "args kx = None"
  shows "partial_call func args ([ky \<mapsto> gy, kx \<mapsto> gx] ++ args) = func (args(ky \<mapsto> gy, kx \<mapsto> gx))"
proof -
  have "args ++ ([ky \<mapsto> gy, kx \<mapsto> gx] ++ args) = args(ky \<mapsto> gy, kx \<mapsto> gx)"
  proof (rule ext)
    fix k
    show "(args ++ ([ky \<mapsto> gy, kx \<mapsto> gx] ++ args)) k = (args(ky \<mapsto> gy, kx \<mapsto> gx)) k"
    proof (cases "args k")
      case None
      then show ?thesis by (simp add: map_add_def split: option.splits)
    next
      case (Some v)
      with assms have "k \<noteq> ky" "k \<noteq> kx" by auto
      with Some show ?thesis by (simp add: map_add_def)
    qed
  qed
  then show ?thesis by (simp add: partial_call_def)
qed

text \<open>
  C8, as the claim states it, fails: with \<^verbatim>\<open>args = {'k': 0.5}\<close>, which is not empty, the
  equation y - k on the mesh of x in [0] and y in [0, 1] is evaluated and the sign change
  between y = 0 and y = 1 is returned. The keyword \<^verbatim>\<open>k\<close> stored in the partial application
  is replaced by the \<^verbatim>\<open>k\<close> passed at the call; no TypeError is raised.
\<close>

theorem find_sign_change_nonempty_args_completes:
  "find_sign_change shifted [0] [0, 1] [''x_axis'' \<mapsto> ''x'', ''y_axis'' \<mapsto> ''y'']
      [''k'' \<mapsto> Scalar (1 / 2)] = Inr [(0, 1)]"
  by (simp add: find_sign_change_def meshgrid_def merge_call_keywords_def partial_call_def
      shifted_def sign_change_points_def np_less_def map_add_def)

text \<open>
  C8, amended: \<^verbatim>\<open>find_sign_change\<close> raises the TypeError of a duplicate keyword argument
  exactly when \<^verbatim>\<open>args\<close> has a key equal to \<^verbatim>\<open>axes['y_axis']\<close> or \<^verbatim>\<open>axes['x_axis']\<close>, and then
  before \<^verbatim>\<open>func\<close> is evaluated. For every other \<^verbatim>\<open>args\<close>, empty or not, \<^verbatim>\<open>func\<close> is evaluated
  once, on the entries of \<^verbatim>\<open>args\<close> and the two mesh grids, and the function runs to
  completion on what \<^verbatim>\<open>func\<close> returns.
\<close>

theorem find_sign_change_keywords:
  assumes "axes ''y_axis'' = Some ky" and "axes ''x_axis'' = Some kx"
  shows "find_sign_change func x_range y_range axes args =
     (if args ky \<noteq> None \<or> args kx \<noteq> None then Inl TypeError
      else (case func (args(ky \<mapsto> Grid (snd (meshgrid x_range y_range)),
                            kx \<mapsto> Grid (fst (meshgrid x_range y_range)))) of
              Inl e \<Rightarrow> Inl e
            | Inr func_grid \<Rightarrow> sign_change_points x_range y_range func_grid))"
proof (cases "args ky \<noteq> None \<or> args kx \<noteq> None")
  case True
  then show ?thesis
    using assms by (simp add: find_sign_change_def merge_grid_axes split: prod.splits)
next
  case False
  then have none: "args ky = None" "args kx = None" by simp_all
  show ?thesis
    using assms none
    by (simp add: find_sign_change_def merge_grid_axes partial_call_same_keywords [OF none]
        split: prod.splits)
qed

text \<open>
  The amended C8 on the equation y - k with k = 1.5 over x in [0, 2] and y in [0, 1, 2]:
  with \<^verbatim>\<open>args = {'k': 1.5}\<close> the sign changes at y = 2 are returned; with the further entry
  \<^verbatim>\<open>'x': 7\<close>, which names the x axis, the call raises TypeError.
\<close>

theorem find_sign_change_keywords_witness:
  "find_sign_change shifted [0, 2] [0, 1, 2] [''x_axis'' \<mapsto> ''x'', ''y_axis'' \<mapsto> ''y'']
      [''k'' \<mapsto> Scalar (3 / 2)] = Inr [(0, 2), (2, 2)]
   \<and> find_sign_change shifted [0, 2] [0, 1, 2] [''x_axis'' \<mapsto> ''x'', ''y_axis'' \<mapsto> ''y'']
      [''k'' \<mapsto> Scalar (3 / 2), ''x'' \<mapsto> Scalar 7] = Inl TypeError"
  using find_sign_change_keywords [of "[''x_axis'' \<mapsto> ''x'', ''y_axis'' \<mapsto> ''y'']" "''y''" "''x''"
      shifted "[0, 2]" "[0, 1, 2]" "[''k'' \<mapsto> Scalar (3 / 2)]"]
    find_sign_change_keywords [of "[''x_axis'' \<mapsto> ''x'', ''y_axis'' \<mapsto> ''y'']" "''y''" "''x''"
      shifted "[0, 2]" "[0, 1, 2]" "[''k'' \<mapsto> Scalar (3 / 2), ''x'' \<mapsto> Scalar 7]"]
  by (simp add: meshgrid_def shifted_def sign_change_points_def np_less_def eval_nat_numeral)

subsection \<open>\<^verbatim>\<open>find_first_imag\<close>\<close>





text \<open>With the default \<^verbatim>\<open>args=(None)\<close> the first x raises TypeError.\<close>

lemma find_first_imag_default_args:
  "find_first_imag newton (x_loc # xs) y_range None = Inl TypeError"
  by (simp add: find_first_imag_def)




end
